theory Spec2Isabelle
  imports Main "HOL-Library.Word"
begin

unbundle bit_operations_syntax

section \<open>Data model of adc.c\<close>

type_synonym u8 = "8 word"
type_synonym u32 = "32 word"
type_synonym u64 = "64 word"

text \<open>
  \<^verbatim>\<open>r_hyst_t\<close>: the fields \<^verbatim>\<open>min\<close> and \<^verbatim>\<open>max\<close> of the source are called
  \<open>hyst_min\<close> and \<open>hyst_max\<close> here, since \<open>min\<close> and \<open>max\<close> are HOL constants.
\<close>

record r_hyst_t =
  hyst_min :: u32
  hyst_max :: u32
  hysteresis :: u32

record r_avg_t =
  queue :: "u32 list"
  ptr :: u8

record adc_channel_data_t =
  raw_value :: u32
  normalized_value :: u32
  r_hyst :: r_hyst_t
  r_avg :: r_avg_t
  min_cal :: u32
  max_cal :: u32

record error_stats =
  conversions :: u32
  invalid_channel :: u32
  read_errors :: u32
  timeouts :: u32

text \<open>
  The module's static variables: the array \<^verbatim>\<open>channel_data[ADC_MAX_CHANNELS]\<close> and the
  error counters.
\<close>

record adc_state =
  channel_data :: "adc_channel_data_t list"
  errors :: error_stats

text \<open>
  The build-time configuration. The Kconfig file is not among the sources, so the values
  it defines are parameters: the channel count, the averaging window, the default
  hysteresis, the per-channel default calibration, and the FreeRTOS tick rate used by
  \<^verbatim>\<open>pdMS_TO_TICKS\<close>.
\<close>

record adc_config =
  ADC_MAX_CHANNELS :: nat
  RUNNING_AVG_SIZE :: nat
  CONFIG_ADC_HYSTERESIS :: u32
  default_mins :: "u32 list"
  default_maxs :: "u32 list"
  configTICK_RATE_HZ :: nat

definition ADC_MAX :: u32 where
  "ADC_MAX = push_bit 12 1"

text \<open>
  Modelled from the spec: \<^verbatim>\<open>util.h\<close>, which defines the macros \<^verbatim>\<open>MIN\<close> and
  \<^verbatim>\<open>MAX\<close>, is not among the sources; the spec reads them as minimum and maximum
  of two unsigned values. \<open>MIN\<close> and \<open>MAX\<close> are HOL binders, hence the suffix.
\<close>

definition MIN_u32 :: "u32 \<Rightarrow> u32 \<Rightarrow> u32" where
  "MIN_u32 a b = (if a < b then a else b)"

definition MAX_u32 :: "u32 \<Rightarrow> u32 \<Rightarrow> u32" where
  "MAX_u32 a b = (if a > b then a else b)"

definition chk_chn :: "adc_config \<Rightarrow> u8 \<Rightarrow> bool" where
  "chk_chn cfg channel = (unat channel < ADC_MAX_CHANNELS cfg)"

section \<open>The two filters\<close>

text \<open>
  \<^verbatim>\<open>running_hyst\<close> returns the filtered value and the module state with the window of
  the channel moved. All arithmetic is on \<^verbatim>\<open>uint32_t\<close> and wraps. \<open>set_window\<close> is the
  pair of assignments to \<^verbatim>\<open>hyst->min\<close> and \<^verbatim>\<open>hyst->max\<close> through the pointer into
  \<^verbatim>\<open>channel_data\<close>.
\<close>

definition set_window :: "u8 \<Rightarrow> u32 \<Rightarrow> u32 \<Rightarrow> adc_state \<Rightarrow> adc_state" where
  "set_window channel mn mx st =
     st\<lparr>channel_data := (channel_data st)[unat channel :=
        (channel_data st ! unat channel)
          \<lparr>r_hyst := (r_hyst (channel_data st ! unat channel))
             \<lparr>hyst_min := mn, hyst_max := mx\<rparr>\<rparr>]\<rparr>"

definition running_hyst :: "adc_config \<Rightarrow> u8 \<Rightarrow> u32 \<Rightarrow> adc_state \<Rightarrow> u32 \<times> adc_state" where
  "running_hyst cfg channel input st =
     (if \<not> chk_chn cfg channel then (input, st)
      else
        let cd = channel_data st ! unat channel;
            hyst = r_hyst cd
        in
          if input \<le> hyst_max hyst \<and> input \<ge> hyst_min hyst then
            (hyst_min hyst + (hyst_max hyst - hyst_min hyst) div 2, st)
          else if input > hyst_max hyst then
            let mx = MIN_u32 (input + hysteresis hyst div 2) (max_cal cd);
                mn = (if mx > hysteresis hyst then mx - hysteresis hyst else 0)
            in (input, set_window channel mn mx st)
          else
            let mn = MAX_u32 (input - hysteresis hyst div 2) (min_cal cd);
                mx = MIN_u32 (mn + hysteresis hyst) (max_cal cd)
            in (input, set_window channel mn mx st))"

text \<open>
  \<^verbatim>\<open>running_average\<close>: the slot at the cursor is overwritten, the cursor advances
  modulo \<^verbatim>\<open>RUNNING_AVG_SIZE\<close> (computed on \<^verbatim>\<open>int\<close>, stored in a \<^verbatim>\<open>uint8_t\<close>), and the
  slots are summed in a \<^verbatim>\<open>uint64_t\<close> by the loop over \<open>i = 0 ..< RUNNING_AVG_SIZE\<close>.
  The quotient is returned as \<^verbatim>\<open>uint32_t\<close>. The cursor stays below the buffer size
  (lemma \<open>running_average_ptr\<close>), so the write is always inside the array.
\<close>

definition queue_sum :: "nat \<Rightarrow> u32 list \<Rightarrow> u64" where
  "queue_sum k q = fold (\<lambda>i sum. sum + ucast (q ! i)) [0..<k] 0"

definition running_average :: "adc_config \<Rightarrow> u8 \<Rightarrow> u32 \<Rightarrow> adc_state \<Rightarrow> u32 \<times> adc_state" where
  "running_average cfg channel input st =
     (if \<not> chk_chn cfg channel then (input, st)
      else
        let cd = channel_data st ! unat channel;
            avg = r_avg cd;
            q = (queue avg)[unat (ptr avg) := input];
            p = (of_nat ((unat (ptr avg) + 1) mod RUNNING_AVG_SIZE cfg) :: u8);
            sum = queue_sum (RUNNING_AVG_SIZE cfg) q
        in (ucast (sum div of_nat (RUNNING_AVG_SIZE cfg)),
            st\<lparr>channel_data := (channel_data st)[unat channel :=
                 cd\<lparr>r_avg := avg\<lparr>queue := q, ptr := p\<rparr>\<rparr>]\<rparr>))"

section \<open>Environment: error codes, the mutex, the converter, the flash store\<close>

text \<open>
  \<^verbatim>\<open>esp_err_t\<close> is an integer code of the platform; the three codes the module itself
  returns are constructors, every other code is \<open>ESP_ERR_CODE\<close>.
\<close>

datatype esp_err_t = ESP_OK | ESP_ERR_INVALID_ARG | ESP_ERR_TIMEOUT | ESP_ERR_CODE int

text \<open>
  The mutex \<^verbatim>\<open>adc_mutex\<close> is held by other tasks for an unknown time. A value of type
  \<open>semaphore\<close> says, for each wait budget in ticks, whether
  \<^verbatim>\<open>xSemaphoreTake(adc_mutex, budget)\<close> returns \<^verbatim>\<open>pdTRUE\<close>.
\<close>

type_synonym TickType_t = u32
type_synonym semaphore = "TickType_t \<Rightarrow> bool"

definition pdMS_TO_TICKS :: "adc_config \<Rightarrow> u32 \<Rightarrow> TickType_t" where
  "pdMS_TO_TICKS cfg ms = (ms * of_nat (configTICK_RATE_HZ cfg)) div 1000"

text \<open>
  One conversion result in the \<^verbatim>\<open>type1\<close> layout of the converter: twelve bits of data
  and a four-bit channel identifier.
\<close>

record adc_digi_output_data_t =
  type1_data :: "12 word"
  type1_channel :: "4 word"

text \<open>
  The table \<^verbatim>\<open>physical_channels\<close>: \<^verbatim>\<open>ADC_CHANNEL_6\<close>, \<^verbatim>\<open>ADC_CHANNEL_7\<close>, \<^verbatim>\<open>ADC_CHANNEL_4\<close>,
  \<^verbatim>\<open>ADC_CHANNEL_5\<close>, \<^verbatim>\<open>ADC_CHANNEL_0\<close>, \<^verbatim>\<open>ADC_CHANNEL_3\<close>, cut to the configured channel
  count; the enumerator \<^verbatim>\<open>ADC_CHANNEL_n\<close> has the value \<open>n\<close>.
\<close>

definition physical_channels :: "adc_config \<Rightarrow> u32 list" where
  "physical_channels cfg = take (ADC_MAX_CHANNELS cfg) [6, 7, 4, 5, 0, 3]"

text \<open>
  The flash store: whether \<^verbatim>\<open>nvs_open\<close> succeeds, the stored entries, and the result of
  each write and of the commit. The keys \<^verbatim>\<open>"ch%d_min"\<close>, \<^verbatim>\<open>"ch%d_max"\<close> and
  \<^verbatim>\<open>"ch%d_hyst"\<close> are constructors applied to the channel.
\<close>

datatype nvs_key = NVS_KEY_MIN u8 | NVS_KEY_MAX u8 | NVS_KEY_HYST u8

record nvs_flash =
  nvs_open_err :: esp_err_t
  nvs_entries :: "nvs_key \<rightharpoonup> u32"
  nvs_set_err :: "nvs_key \<Rightarrow> esp_err_t"
  nvs_commit_err :: esp_err_t

section \<open>The acquisition task\<close>

text \<open>
  The body of the critical section of \<^verbatim>\<open>task_adc\<close> for a matched sample: store the raw
  value, run the hysteresis filter, then the running average, and store the result.
\<close>

definition update_channel :: "adc_config \<Rightarrow> nat \<Rightarrow> u32 \<Rightarrow> adc_state \<Rightarrow> adc_state" where
  "update_channel cfg ch raw st =
     (let st1 = st\<lparr>channel_data := (channel_data st)[ch :=
                   (channel_data st ! ch)\<lparr>raw_value := raw\<rparr>]\<rparr>;
          (h, st2) = running_hyst cfg (of_nat ch) raw st1;
          (a, st3) = running_average cfg (of_nat ch) h st2
      in st3\<lparr>channel_data := (channel_data st3)[ch :=
                   (channel_data st3 ! ch)\<lparr>normalized_value := a\<rparr>]\<rparr>)"

text \<open>
  The scan \<^verbatim>\<open>for (ch = 0; ch < ADC_MAX_CHANNELS; ch++)\<close> with its \<^verbatim>\<open>break\<close> at the first
  channel whose physical identifier matches. A sample whose update cannot take the mutex
  within 10 ms is dropped; a sample that matches no channel changes nothing.
\<close>

fun scan_channels ::
  "adc_config \<Rightarrow> semaphore \<Rightarrow> adc_digi_output_data_t \<Rightarrow> nat list \<Rightarrow> adc_state \<Rightarrow> adc_state" where
  "scan_channels cfg sem p [] st = st"
| "scan_channels cfg sem p (ch # chs) st =
     (if (physical_channels cfg ! ch) AND 7 = ucast (type1_channel p) then
        (if sem (pdMS_TO_TICKS cfg 10) then update_channel cfg ch (ucast (type1_data p)) st
         else st)
      else scan_channels cfg sem p chs st)"

definition process_sample ::
  "adc_config \<Rightarrow> adc_digi_output_data_t \<times> semaphore \<Rightarrow> adc_state \<Rightarrow> adc_state" where
  "process_sample cfg ps st =
     scan_channels cfg (snd ps) (fst ps) [0..<ADC_MAX_CHANNELS cfg] st"

text \<open>
  One wake-up of the task: the result of \<^verbatim>\<open>adc_continuous_read\<close> is a status and the
  samples of the buffer, each paired with the state of the mutex when it is processed.
\<close>

definition task_adc_cycle ::
  "adc_config \<Rightarrow> esp_err_t \<times> (adc_digi_output_data_t \<times> semaphore) list \<Rightarrow> adc_state \<Rightarrow> adc_state" where
  "task_adc_cycle cfg rd st =
     (if fst rd = ESP_OK then
        fold (process_sample cfg) (snd rd)
          (st\<lparr>errors := (errors st)\<lparr>conversions := conversions (errors st) + 1\<rparr>\<rparr>)
      else if fst rd = ESP_ERR_TIMEOUT then
        st\<lparr>errors := (errors st)\<lparr>timeouts := timeouts (errors st) + 1\<rparr>\<rparr>
      else
        st\<lparr>errors := (errors st)\<lparr>read_errors := read_errors (errors st) + 1\<rparr>\<rparr>)"

text \<open>The endless loop of the task, run on a finite sequence of wake-ups.\<close>

definition task_adc ::
  "adc_config \<Rightarrow> (esp_err_t \<times> (adc_digi_output_data_t \<times> semaphore) list) list \<Rightarrow> adc_state \<Rightarrow> adc_state" where
  "task_adc cfg rds st = fold (task_adc_cycle cfg) rds st"

section \<open>Persistence\<close>

definition save_channel_config ::
  "adc_config \<Rightarrow> u8 \<Rightarrow> adc_state \<Rightarrow> nvs_flash \<Rightarrow> esp_err_t \<times> nvs_flash" where
  "save_channel_config cfg channel st nvs =
     (if \<not> chk_chn cfg channel then (ESP_ERR_INVALID_ARG, nvs)
      else if nvs_open_err nvs \<noteq> ESP_OK then (nvs_open_err nvs, nvs)
      else if nvs_set_err nvs (NVS_KEY_MIN channel) \<noteq> ESP_OK
        then (nvs_set_err nvs (NVS_KEY_MIN channel), nvs)
      else
        let cd = channel_data st ! unat channel;
            nvs1 = nvs\<lparr>nvs_entries := (nvs_entries nvs)(NVS_KEY_MIN channel \<mapsto> min_cal cd)\<rparr>
        in
          if nvs_set_err nvs (NVS_KEY_MAX channel) \<noteq> ESP_OK
            then (nvs_set_err nvs (NVS_KEY_MAX channel), nvs1)
          else
            let nvs2 = nvs1\<lparr>nvs_entries :=
                         (nvs_entries nvs1)(NVS_KEY_MAX channel \<mapsto> max_cal cd)\<rparr>
            in
              if nvs_set_err nvs (NVS_KEY_HYST channel) \<noteq> ESP_OK
                then (nvs_set_err nvs (NVS_KEY_HYST channel), nvs2)
              else
                (nvs_commit_err nvs,
                 nvs2\<lparr>nvs_entries :=
                   (nvs_entries nvs2)(NVS_KEY_HYST channel \<mapsto> hysteresis (r_hyst cd))\<rparr>))"

definition load_channel_config ::
  "adc_config \<Rightarrow> nvs_flash \<Rightarrow> u8 \<Rightarrow> adc_state \<Rightarrow> esp_err_t \<times> adc_state" where
  "load_channel_config cfg nvs channel st =
     (if \<not> chk_chn cfg channel then (ESP_ERR_INVALID_ARG, st)
      else if nvs_open_err nvs \<noteq> ESP_OK then (nvs_open_err nvs, st)
      else
        let cd0 = channel_data st ! unat channel;
            cd1 = (case nvs_entries nvs (NVS_KEY_MIN channel) of
                     Some v \<Rightarrow> cd0\<lparr>min_cal := v\<rparr> | None \<Rightarrow> cd0);
            cd2 = (case nvs_entries nvs (NVS_KEY_MAX channel) of
                     Some v \<Rightarrow> cd1\<lparr>max_cal := v\<rparr> | None \<Rightarrow> cd1);
            cd3 = (case nvs_entries nvs (NVS_KEY_HYST channel) of
                     Some v \<Rightarrow> cd2\<lparr>r_hyst := (r_hyst cd2)\<lparr>hysteresis := v\<rparr>\<rparr> | None \<Rightarrow> cd2)
        in (ESP_OK, st\<lparr>channel_data := (channel_data st)[unat channel := cd3]\<rparr>))"

section \<open>Initialisation\<close>

text \<open>
  \<^verbatim>\<open>bzero\<close> of one channel record, then the defaults of the configuration, then the
  values of the flash store when it has them.
\<close>

definition zero_channel :: "adc_config \<Rightarrow> adc_channel_data_t" where
  "zero_channel cfg =
     \<lparr>raw_value = 0, normalized_value = 0,
      r_hyst = \<lparr>hyst_min = 0, hyst_max = 0, hysteresis = 0\<rparr>,
      r_avg = \<lparr>queue = replicate (RUNNING_AVG_SIZE cfg) 0, ptr = 0\<rparr>,
      min_cal = 0, max_cal = 0\<rparr>"

definition init_channel :: "adc_config \<Rightarrow> nvs_flash \<Rightarrow> nat \<Rightarrow> adc_state \<Rightarrow> adc_state" where
  "init_channel cfg nvs ch st =
     (let cd = (zero_channel cfg)
                 \<lparr>r_hyst := \<lparr>hyst_min = default_mins cfg ! ch,
                             hyst_max = default_mins cfg ! ch + CONFIG_ADC_HYSTERESIS cfg,
                             hysteresis = CONFIG_ADC_HYSTERESIS cfg\<rparr>,
                   min_cal := default_mins cfg ! ch,
                   max_cal := default_maxs cfg ! ch\<rparr>
      in snd (load_channel_config cfg nvs (of_nat ch)
                (st\<lparr>channel_data := (channel_data st)[ch := cd]\<rparr>)))"

text \<open>
  \<^verbatim>\<open>adc_init\<close> fails before touching the state when the mutex cannot be created;
  otherwise it clears the counters, initialises every channel and returns the result of
  \<^verbatim>\<open>xTaskCreate\<close>.
\<close>

definition adc_init :: "adc_config \<Rightarrow> bool \<Rightarrow> bool \<Rightarrow> nvs_flash \<Rightarrow> adc_state \<Rightarrow> bool \<times> adc_state" where
  "adc_init cfg mutex_created task_created nvs st =
     (if \<not> mutex_created then (False, st)
      else
        (task_created,
         fold (init_channel cfg nvs) [0..<ADC_MAX_CHANNELS cfg]
           (st\<lparr>errors := \<lparr>conversions = 0, invalid_channel = 0,
                           read_errors = 0, timeouts = 0\<rparr>\<rparr>)))"

section \<open>The accessor functions\<close>

text \<open>
  A getter returns \<open>Inl\<close> of the error code, or \<open>Inr\<close> of the values written through
  its output pointers together with \<^verbatim>\<open>ESP_OK\<close>. A pointer argument is represented by
  whether it is \<^verbatim>\<open>NULL\<close>. A setter returns its code, the module state and the flash store.
\<close>

definition adc_get_normalized ::
  "adc_config \<Rightarrow> semaphore \<Rightarrow> adc_state \<Rightarrow> u8 \<Rightarrow> bool \<Rightarrow> TickType_t \<Rightarrow> esp_err_t + u32" where
  "adc_get_normalized cfg sem st channel v_null wait =
     (if \<not> chk_chn cfg channel \<or> v_null then Inl ESP_ERR_INVALID_ARG
      else if \<not> sem wait then Inl ESP_ERR_TIMEOUT
      else Inr (normalized_value (channel_data st ! unat channel)))"

definition adc_get_raw ::
  "adc_config \<Rightarrow> semaphore \<Rightarrow> adc_state \<Rightarrow> u8 \<Rightarrow> bool \<Rightarrow> TickType_t \<Rightarrow> esp_err_t + u32" where
  "adc_get_raw cfg sem st channel v_null wait =
     (if \<not> chk_chn cfg channel \<or> v_null then Inl ESP_ERR_INVALID_ARG
      else if \<not> sem wait then Inl ESP_ERR_TIMEOUT
      else Inr (raw_value (channel_data st ! unat channel)))"

definition adc_set_calibration ::
  "adc_config \<Rightarrow> semaphore \<Rightarrow> adc_state \<Rightarrow> nvs_flash \<Rightarrow> u8 \<Rightarrow> u32 \<Rightarrow> u32
     \<Rightarrow> esp_err_t \<times> adc_state \<times> nvs_flash" where
  "adc_set_calibration cfg sem st nvs channel mn mx =
     (if \<not> chk_chn cfg channel \<or> mn \<ge> mx \<or> mx > ADC_MAX then (ESP_ERR_INVALID_ARG, st, nvs)
      else if \<not> sem (pdMS_TO_TICKS cfg 100) then (ESP_ERR_TIMEOUT, st, nvs)
      else
        let cd = channel_data st ! unat channel;
            cd' = cd\<lparr>min_cal := mn, max_cal := mx,
                     r_hyst := (r_hyst cd)\<lparr>hyst_min := mn,
                        hyst_max := MIN_u32 (mn + hysteresis (r_hyst cd)) mx\<rparr>\<rparr>;
            st' = st\<lparr>channel_data := (channel_data st)[unat channel := cd']\<rparr>;
            (err, nvs') = save_channel_config cfg channel st' nvs
        in (err, st', nvs'))"

definition adc_get_calibration ::
  "adc_config \<Rightarrow> semaphore \<Rightarrow> adc_state \<Rightarrow> u8 \<Rightarrow> bool \<Rightarrow> bool \<Rightarrow> esp_err_t + u32 \<times> u32" where
  "adc_get_calibration cfg sem st channel min_null max_null =
     (if \<not> chk_chn cfg channel \<or> min_null \<or> max_null then Inl ESP_ERR_INVALID_ARG
      else if \<not> sem (pdMS_TO_TICKS cfg 100) then Inl ESP_ERR_TIMEOUT
      else Inr (min_cal (channel_data st ! unat channel),
                max_cal (channel_data st ! unat channel)))"

definition adc_set_hysteresis ::
  "adc_config \<Rightarrow> semaphore \<Rightarrow> adc_state \<Rightarrow> nvs_flash \<Rightarrow> u8 \<Rightarrow> u32
     \<Rightarrow> esp_err_t \<times> adc_state \<times> nvs_flash" where
  "adc_set_hysteresis cfg sem st nvs channel h =
     (if \<not> chk_chn cfg channel \<or> h = 0 \<or> h > 1000 then (ESP_ERR_INVALID_ARG, st, nvs)
      else if \<not> sem (pdMS_TO_TICKS cfg 100) then (ESP_ERR_TIMEOUT, st, nvs)
      else
        let cd = channel_data st ! unat channel;
            st' = st\<lparr>channel_data := (channel_data st)[unat channel :=
                       cd\<lparr>r_hyst := (r_hyst cd)\<lparr>hysteresis := h\<rparr>\<rparr>]\<rparr>;
            (err, nvs') = save_channel_config cfg channel st' nvs
        in (err, st', nvs'))"

definition adc_get_hysteresis ::
  "adc_config \<Rightarrow> semaphore \<Rightarrow> adc_state \<Rightarrow> u8 \<Rightarrow> bool \<Rightarrow> esp_err_t + u32" where
  "adc_get_hysteresis cfg sem st channel hysteresis_null =
     (if \<not> chk_chn cfg channel \<or> hysteresis_null then Inl ESP_ERR_INVALID_ARG
      else if \<not> sem (pdMS_TO_TICKS cfg 100) then Inl ESP_ERR_TIMEOUT
      else Inr (hysteresis (r_hyst (channel_data st ! unat channel))))"

section \<open>Well-formed configurations and states\<close>

text \<open>
  The ranges the configuration menu allows: two to six channels, an averaging window of
  two to a hundred samples, one default calibration pair per channel.
\<close>

definition valid_config :: "adc_config \<Rightarrow> bool" where
  "valid_config cfg =
     (2 \<le> ADC_MAX_CHANNELS cfg \<and> ADC_MAX_CHANNELS cfg \<le> 6 \<and>
      2 \<le> RUNNING_AVG_SIZE cfg \<and> RUNNING_AVG_SIZE cfg \<le> 100 \<and>
      length (default_mins cfg) = ADC_MAX_CHANNELS cfg \<and>
      length (default_maxs cfg) = ADC_MAX_CHANNELS cfg)"

text \<open>
  What the C types and the cursor arithmetic guarantee of every state: the channel array
  has \<^verbatim>\<open>ADC_MAX_CHANNELS\<close> records, each buffer has \<^verbatim>\<open>RUNNING_AVG_SIZE\<close> slots and
  each cursor points into its buffer.
\<close>

definition wf_channel :: "adc_config \<Rightarrow> adc_channel_data_t \<Rightarrow> bool" where
  "wf_channel cfg cd =
     (length (queue (r_avg cd)) = RUNNING_AVG_SIZE cfg \<and>
      unat (ptr (r_avg cd)) < RUNNING_AVG_SIZE cfg)"

definition wf_state :: "adc_config \<Rightarrow> adc_state \<Rightarrow> bool" where
  "wf_state cfg st =
     (length (channel_data st) = ADC_MAX_CHANNELS cfg \<and>
      list_all (wf_channel cfg) (channel_data st))"

subsection \<open>The reference configuration\<close>

text \<open>
  Four channels and a window of ten samples are the values the source falls back to;
  hysteresis 40 and calibration \<open>[0, 4095]\<close> are those of the documentation.
\<close>

definition default_config :: adc_config where
  "default_config =
     \<lparr>ADC_MAX_CHANNELS = 4, RUNNING_AVG_SIZE = 10, CONFIG_ADC_HYSTERESIS = 40,
      default_mins = [0, 0, 0, 0], default_maxs = [4095, 4095, 4095, 4095],
      configTICK_RATE_HZ = 100\<rparr>"

definition empty_nvs :: nvs_flash where
  "empty_nvs =
     \<lparr>nvs_open_err = ESP_OK, nvs_entries = Map.empty,
      nvs_set_err = (\<lambda>k. ESP_OK), nvs_commit_err = ESP_OK\<rparr>"

text \<open>The zero-filled static storage before \<^verbatim>\<open>adc_init\<close> runs.\<close>

definition static_zero :: "adc_config \<Rightarrow> adc_state" where
  "static_zero cfg =
     \<lparr>channel_data = replicate (ADC_MAX_CHANNELS cfg) (zero_channel cfg),
      errors = \<lparr>conversions = 0, invalid_channel = 0, read_errors = 0, timeouts = 0\<rparr>\<rparr>"

text \<open>The state of the reference configuration after \<^verbatim>\<open>adc_init\<close> with an empty store.\<close>

definition init_state :: adc_state where
  "init_state = snd (adc_init default_config True True empty_nvs (static_zero default_config))"

text \<open>A mutex that is free, and a sample that arrives while it is free.\<close>

definition free_mutex :: semaphore where
  "free_mutex = (\<lambda>w. True)"

definition sample :: "nat \<Rightarrow> nat \<Rightarrow> adc_digi_output_data_t \<times> semaphore" where
  "sample c d = (\<lparr>type1_data = of_nat d, type1_channel = of_nat c\<rparr>, free_mutex)"

text \<open>The initial state with the window of channel 0 placed at \<open>[lo, hi]\<close>.\<close>

definition window_state :: "u32 \<Rightarrow> u32 \<Rightarrow> adc_state" where
  "window_state lo hi =
     init_state\<lparr>channel_data := (channel_data init_state)[0 :=
        (channel_data init_state ! 0)
          \<lparr>r_hyst := \<lparr>hyst_min = lo, hyst_max = hi, hysteresis = 40\<rparr>\<rparr>]\<rparr>"

text \<open>A mutex held by another task for the next \<open>n\<close> ticks.\<close>

definition busy_mutex :: "nat \<Rightarrow> semaphore" where
  "busy_mutex n = (\<lambda>w. n \<le> unat w)"

section \<open>The filters on the record of one channel\<close>

text \<open>
  \<^verbatim>\<open>running_hyst\<close>, \<^verbatim>\<open>running_average\<close> and the critical section of \<^verbatim>\<open>task_adc\<close> read and
  write one element of \<^verbatim>\<open>channel_data\<close>. The three functions below are the same
  computations on that element alone; lemmas \<open>running_hyst_record\<close>,
  \<open>running_average_record\<close> and \<open>update_channel_record\<close> relate them to the functions
  on the module state.
\<close>

definition hyst_record :: "adc_channel_data_t \<Rightarrow> u32 \<Rightarrow> u32 \<times> adc_channel_data_t" where
  "hyst_record cd input =
     (let hyst = r_hyst cd
      in
        if input \<le> hyst_max hyst \<and> input \<ge> hyst_min hyst then
          (hyst_min hyst + (hyst_max hyst - hyst_min hyst) div 2, cd)
        else if input > hyst_max hyst then
          let mx = MIN_u32 (input + hysteresis hyst div 2) (max_cal cd);
              mn = (if mx > hysteresis hyst then mx - hysteresis hyst else 0)
          in (input, cd\<lparr>r_hyst := hyst\<lparr>hyst_min := mn, hyst_max := mx\<rparr>\<rparr>)
        else
          let mn = MAX_u32 (input - hysteresis hyst div 2) (min_cal cd);
              mx = MIN_u32 (mn + hysteresis hyst) (max_cal cd)
          in (input, cd\<lparr>r_hyst := hyst\<lparr>hyst_min := mn, hyst_max := mx\<rparr>\<rparr>))"

definition avg_record ::
  "adc_config \<Rightarrow> adc_channel_data_t \<Rightarrow> u32 \<Rightarrow> u32 \<times> adc_channel_data_t" where
  "avg_record cfg cd input =
     (let avg = r_avg cd;
          q = (queue avg)[unat (ptr avg) := input];
          p = (of_nat ((unat (ptr avg) + 1) mod RUNNING_AVG_SIZE cfg) :: u8)
      in (ucast (queue_sum (RUNNING_AVG_SIZE cfg) q div of_nat (RUNNING_AVG_SIZE cfg)),
          cd\<lparr>r_avg := avg\<lparr>queue := q, ptr := p\<rparr>\<rparr>))"

definition sample_record :: "adc_config \<Rightarrow> adc_channel_data_t \<Rightarrow> u32 \<Rightarrow> adc_channel_data_t" where
  "sample_record cfg cd raw =
     (let (h, cd2) = hyst_record (cd\<lparr>raw_value := raw\<rparr>) raw;
          (a, cd3) = avg_record cfg cd2 h
      in cd3\<lparr>normalized_value := a\<rparr>)"

section \<open>Calibration bounds as an invariant\<close>

definition in_cal :: "adc_channel_data_t \<Rightarrow> u32 \<Rightarrow> bool" where
  "in_cal cd v = (min_cal cd \<le> v \<and> v \<le> max_cal cd)"

text \<open>
  The calibration is valid (\<open>min < max \<le> 2 ^ 12\<close>) and the width is positive and no wider
  than the calibrated range.
\<close>

definition cal_ok :: "adc_channel_data_t \<Rightarrow> bool" where
  "cal_ok cd =
     (min_cal cd < max_cal cd \<and> max_cal cd \<le> ADC_MAX \<and>
      0 < hysteresis (r_hyst cd) \<and> hysteresis (r_hyst cd) \<le> max_cal cd - min_cal cd)"

text \<open>The window lies inside the calibration bounds.\<close>

definition window_in_cal :: "adc_channel_data_t \<Rightarrow> bool" where
  "window_in_cal cd =
     (min_cal cd \<le> hyst_min (r_hyst cd) \<and> hyst_min (r_hyst cd) \<le> hyst_max (r_hyst cd) \<and>
      hyst_max (r_hyst cd) \<le> max_cal cd)"

text \<open>
  What the filter keeps of that from sample to sample: the upper end of the window stays
  inside the bounds, and the midpoint of a window that is not empty stays above the
  lower bound. The lower end itself may leave the bounds.
\<close>

definition window_inv :: "adc_channel_data_t \<Rightarrow> bool" where
  "window_inv cd =
     (hyst_max (r_hyst cd) \<le> max_cal cd \<and> min_cal cd \<le> hyst_max (r_hyst cd) \<and>
      (if hyst_min (r_hyst cd) \<le> hyst_max (r_hyst cd)
       then min_cal cd \<le> hyst_min (r_hyst cd) +
              (hyst_max (r_hyst cd) - hyst_min (r_hyst cd)) div 2
       else True))"

text \<open>Every slot of the averaging buffer and the stored filtered value lie inside the bounds.\<close>

definition filled_in_cal :: "adc_channel_data_t \<Rightarrow> bool" where
  "filled_in_cal cd =
     (list_all (in_cal cd) (queue (r_avg cd)) \<and> in_cal cd (normalized_value cd))"

text \<open>The sample carries the physical identifier of the logical channel.\<close>

definition sample_for :: "adc_config \<Rightarrow> u8 \<Rightarrow> adc_digi_output_data_t \<Rightarrow> bool" where
  "sample_for cfg channel p =
     ((physical_channels cfg ! unat channel) AND 7 = ucast (type1_channel p))"

text \<open>
  The invariant of one channel record, and of the record at index \<open>c\<close> of a state whose
  calibration bounds are \<open>lo\<close> and \<open>hi\<close>.
\<close>

definition channel_inv :: "adc_config \<Rightarrow> adc_channel_data_t \<Rightarrow> bool" where
  "channel_inv cfg cd = (wf_channel cfg cd \<and> cal_ok cd \<and> window_inv cd \<and> filled_in_cal cd)"

definition tracked :: "adc_config \<Rightarrow> nat \<Rightarrow> u32 \<Rightarrow> u32 \<Rightarrow> adc_state \<Rightarrow> bool" where
  "tracked cfg c lo hi st =
     (length (channel_data st) = ADC_MAX_CHANNELS cfg \<and>
      channel_inv cfg (channel_data st ! c) \<and>
      min_cal (channel_data st ! c) = lo \<and> max_cal (channel_data st ! c) = hi)"

subsection \<open>States reached through the accessor functions\<close>

text \<open>
  The initial state after \<^verbatim>\<open>adc_set_calibration(0, lo, hi)\<close>; that state after ten samples
  of 120 on channel 0 under the calibration \<open>[100, 3900]\<close>; and the state with calibration
  \<open>[500, 600]\<close>, ten samples of 520 and then \<^verbatim>\<open>adc_set_hysteresis(0, 1000)\<close>.
\<close>

definition calibrated_state :: "u32 \<Rightarrow> u32 \<Rightarrow> adc_state" where
  "calibrated_state lo hi =
     fst (snd (adc_set_calibration default_config free_mutex init_state empty_nvs 0 lo hi))"

definition warm_state :: adc_state where
  "warm_state =
     task_adc default_config [(ESP_OK, replicate 10 (sample 6 120))] (calibrated_state 100 3900)"

definition narrow_state :: adc_state where
  "narrow_state =
     fst (snd (adc_set_hysteresis default_config free_mutex
       (task_adc default_config [(ESP_OK, replicate 10 (sample 6 520))] (calibrated_state 500 600))
       empty_nvs 0 1000))"

section \<open>The hysteresis filter: holding inside the window\<close>

lemma midpoint_unat:
  fixes a b :: u32
  assumes "a \<le> b"
  shows "unat (a + (b - a) div 2) = unat a + (unat b - unat a) div 2"
proof -
  have le: "unat a \<le> unat b" using assms by (simp add: word_le_nat_alt)
  have s: "unat (b - a) = unat b - unat a" using assms by (simp add: unat_sub)
  have d: "unat ((b - a) div 2) = (unat b - unat a) div 2" by (simp add: unat_div s)
  have "unat b < 2 ^ 32" using unsigned_less [of b] by simp
  then have "unat a + unat ((b - a) div 2) < 2 ^ LENGTH(32)" using le d by simp
  then have "unat (a + (b - a) div 2) = unat a + unat ((b - a) div 2)"
    by (simp only: unat_add_lem)
  then show ?thesis by (simp add: d)
qed

lemma running_hyst_inside:
  assumes "chk_chn cfg channel"
    and "hyst_min (r_hyst (channel_data st ! unat channel)) \<le> x"
    and "x \<le> hyst_max (r_hyst (channel_data st ! unat channel))"
  shows "running_hyst cfg channel x st =
           (hyst_min (r_hyst (channel_data st ! unat channel)) +
              (hyst_max (r_hyst (channel_data st ! unat channel)) -
               hyst_min (r_hyst (channel_data st ! unat channel))) div 2, st)"
  using assms by (simp add: running_hyst_def Let_def)

text \<open>
  Claim C4. For a valid channel and a raw value \<open>x\<close> with
  \<open>window_min \<le> x \<le> window_max\<close>, \<open>running_hyst\<close> returns the midpoint
  \<open>window_min + (window_max - window_min) div 2\<close>, computed without wrap-around, and
  leaves the whole state, hence the window, as it was; a second sample \<open>y\<close> inside the
  window yields the same output as the first. The witness is the window \<open>[1980, 2020]\<close>
  with the inputs 2010 and 2015, both answered by 2000.
\<close>

theorem running_hyst_hold:
  assumes "chk_chn cfg channel"
    and "hyst_min (r_hyst (channel_data st ! unat channel)) \<le> x"
    and "x \<le> hyst_max (r_hyst (channel_data st ! unat channel))"
    and "hyst_min (r_hyst (channel_data st ! unat channel)) \<le> y"
    and "y \<le> hyst_max (r_hyst (channel_data st ! unat channel))"
  shows "unat (fst (running_hyst cfg channel x st)) =
           unat (hyst_min (r_hyst (channel_data st ! unat channel))) +
             (unat (hyst_max (r_hyst (channel_data st ! unat channel))) -
              unat (hyst_min (r_hyst (channel_data st ! unat channel)))) div 2
       \<and> snd (running_hyst cfg channel x st) = st
       \<and> fst (running_hyst cfg channel y (snd (running_hyst cfg channel x st))) =
           fst (running_hyst cfg channel x st)"
proof -
  have le: "hyst_min (r_hyst (channel_data st ! unat channel))
              \<le> hyst_max (r_hyst (channel_data st ! unat channel))"
    using assms(2,3) by (rule order_trans)
  show ?thesis
    using assms by (simp add: running_hyst_inside midpoint_unat [OF le])
qed

theorem running_hyst_hold_witness:
  "chk_chn default_config 0
   \<and> hyst_min (r_hyst (channel_data (window_state 1980 2020) ! unat (0 :: u8))) \<le> 2010
   \<and> 2010 \<le> hyst_max (r_hyst (channel_data (window_state 1980 2020) ! unat (0 :: u8)))
   \<and> hyst_min (r_hyst (channel_data (window_state 1980 2020) ! unat (0 :: u8))) \<le> 2015
   \<and> 2015 \<le> hyst_max (r_hyst (channel_data (window_state 1980 2020) ! unat (0 :: u8)))
   \<and> running_hyst default_config 0 2010 (window_state 1980 2020) =
       (2000, window_state 1980 2020)
   \<and> fst (running_hyst default_config 0 2015
            (snd (running_hyst default_config 0 2010 (window_state 1980 2020)))) =
       fst (running_hyst default_config 0 2010 (window_state 1980 2020))"
proof -
  have c: "chk_chn default_config 0" by code_simp
  have h1: "hyst_min (r_hyst (channel_data (window_state 1980 2020) ! unat (0 :: u8))) \<le> 2010"
    by code_simp
  have h2: "2010 \<le> hyst_max (r_hyst (channel_data (window_state 1980 2020) ! unat (0 :: u8)))"
    by code_simp
  have h3: "hyst_min (r_hyst (channel_data (window_state 1980 2020) ! unat (0 :: u8))) \<le> 2015"
    by code_simp
  have h4: "2015 \<le> hyst_max (r_hyst (channel_data (window_state 1980 2020) ! unat (0 :: u8)))"
    by code_simp
  have e: "running_hyst default_config 0 2010 (window_state 1980 2020) =
             (2000, window_state 1980 2020)"
    by code_simp
  from running_hyst_hold [OF c h1 h2 h3 h4] c h1 h2 h3 h4 e show ?thesis
    by blast
qed

section \<open>The hysteresis filter: sliding up\<close>

lemma MIN_u32_unat: "unat (MIN_u32 a b) = min (unat a) (unat b)"
  by (simp add: MIN_u32_def word_less_nat_alt min_def)

lemma MAX_u32_unat: "unat (MAX_u32 a b) = max (unat a) (unat b)"
  by (simp add: MAX_u32_def word_less_nat_alt max_def)

lemma half_unat: "unat (h div 2) = unat h div 2" for h :: u32
  by (simp add: unat_div)

lemma plus_half_unat:
  fixes x h :: u32
  assumes "unat x \<le> 2 ^ 12"
  shows "unat (x + h div 2) = unat x + unat h div 2"
proof -
  have "unat h < 2 ^ 32" using unsigned_less [of h] by simp
  then have "unat x + unat (h div 2) < 2 ^ LENGTH(32)"
    using assms by (simp add: half_unat)
  then have "unat (x + h div 2) = unat x + unat (h div 2)"
    by (simp only: unat_add_lem)
  then show ?thesis by (simp add: half_unat)
qed

lemma window_floor_unat:
  fixes m h :: u32
  shows "unat (if m > h then m - h else 0) = (if unat h < unat m then unat m - unat h else 0)"
  by (simp add: word_less_nat_alt unat_sub word_le_nat_alt)

lemma set_window_nth:
  assumes "unat channel < length (channel_data st)"
  shows "r_hyst (channel_data (set_window channel mn mx st) ! unat channel) =
           (r_hyst (channel_data st ! unat channel))\<lparr>hyst_min := mn, hyst_max := mx\<rparr>"
  using assms by (simp add: set_window_def)

lemma running_hyst_above:
  assumes "chk_chn cfg channel"
    and "hyst_max (r_hyst (channel_data st ! unat channel)) < x"
  shows "running_hyst cfg channel x st =
     (x, set_window channel
           (if MIN_u32 (x + hysteresis (r_hyst (channel_data st ! unat channel)) div 2)
                 (max_cal (channel_data st ! unat channel))
               > hysteresis (r_hyst (channel_data st ! unat channel))
            then MIN_u32 (x + hysteresis (r_hyst (channel_data st ! unat channel)) div 2)
                   (max_cal (channel_data st ! unat channel))
                 - hysteresis (r_hyst (channel_data st ! unat channel))
            else 0)
           (MIN_u32 (x + hysteresis (r_hyst (channel_data st ! unat channel)) div 2)
              (max_cal (channel_data st ! unat channel))) st)"
proof -
  have "\<not> x \<le> hyst_max (r_hyst (channel_data st ! unat channel))"
    using assms(2) by (simp add: not_le)
  then show ?thesis
    using assms by (simp add: running_hyst_def Let_def)
qed

text \<open>
  Claim C5. For a valid channel and a raw value \<open>x\<close> (below \<open>2 ^ 12\<close>, as every value
  the converter delivers) with \<open>x > window_max\<close>, \<open>running_hyst\<close> sets
  \<open>window_max\<close> to \<open>min (x + width div 2) calibration.max\<close>, sets \<open>window_min\<close> to
  \<open>window_max - width\<close> when \<open>window_max > width\<close> and to 0 otherwise, and returns
  \<open>x\<close>; the sums and differences are those of the natural numbers, nothing wraps. The
  witness is the initial state of the reference configuration (width 40, calibration
  \<open>[0, 4095]\<close>): the input 2000 moves the window to \<open>[1980, 2020]\<close> and is returned.
\<close>

theorem running_hyst_slide_up:
  assumes "chk_chn cfg channel"
    and "unat channel < length (channel_data st)"
    and "hyst_max (r_hyst (channel_data st ! unat channel)) < x"
    and "unat x < 2 ^ 12"
  shows "unat (hyst_max (r_hyst (channel_data (snd (running_hyst cfg channel x st)) ! unat channel))) =
           min (unat x + unat (hysteresis (r_hyst (channel_data st ! unat channel))) div 2)
               (unat (max_cal (channel_data st ! unat channel)))
       \<and> unat (hyst_min (r_hyst (channel_data (snd (running_hyst cfg channel x st)) ! unat channel))) =
           (if unat (hysteresis (r_hyst (channel_data st ! unat channel)))
                 < unat (hyst_max (r_hyst (channel_data (snd (running_hyst cfg channel x st)) ! unat channel)))
            then unat (hyst_max (r_hyst (channel_data (snd (running_hyst cfg channel x st)) ! unat channel)))
                 - unat (hysteresis (r_hyst (channel_data st ! unat channel)))
            else 0)
       \<and> fst (running_hyst cfg channel x st) = x"
  using assms(4)
  by (simp add: running_hyst_above [OF assms(1,3)] set_window_nth [OF assms(2)]
        window_floor_unat MIN_u32_unat plus_half_unat del: One_nat_def)


theorem running_hyst_slide_up_witness:
  "chk_chn default_config 0
   \<and> unat (0 :: u8) < length (channel_data init_state)
   \<and> hyst_max (r_hyst (channel_data init_state ! unat (0 :: u8))) < 2000
   \<and> unat (2000 :: u32) < 2 ^ 12
   \<and> unat (hyst_max (r_hyst (channel_data (snd (running_hyst default_config 0 2000 init_state)) ! unat (0 :: u8)))) =
           min (unat (2000 :: u32) + unat (hysteresis (r_hyst (channel_data init_state ! unat (0 :: u8)))) div 2)
               (unat (max_cal (channel_data init_state ! unat (0 :: u8))))
   \<and> running_hyst default_config 0 2000 init_state = (2000, window_state 1980 2020)"
proof -
  have c: "chk_chn default_config 0" by code_simp
  have h1: "unat (0 :: u8) < length (channel_data init_state)" by code_simp
  have h2: "hyst_max (r_hyst (channel_data init_state ! unat (0 :: u8))) < 2000" by code_simp
  have h3: "unat (2000 :: u32) < 2 ^ 12" by simp
  have e: "running_hyst default_config 0 2000 init_state = (2000, window_state 1980 2020)"
    by code_simp
  from running_hyst_slide_up [OF c h1 h2 h3] c h1 h2 h3 e show ?thesis
    by blast
qed

section \<open>The running average\<close>

lemma sum_list_unat_bound:
  fixes xs :: "u32 list"
  shows "sum_list (map unat xs) \<le> length xs * (2 ^ 32 - 1)"
proof (induction xs)
  case Nil
  show ?case by simp
next
  case (Cons x xs)
  have "unat x < 2 ^ 32" using unsigned_less [of x] by simp
  then show ?case using Cons by simp
qed

lemma queue_sum_Suc: "queue_sum (Suc k) q = queue_sum k q + ucast (q ! k)"
  by (simp add: queue_sum_def)

lemma queue_sum_unat:
  "k \<le> length q \<Longrightarrow> k \<le> 2 ^ 32 \<Longrightarrow> unat (queue_sum k q) = sum_list (map unat (take k q))"
proof (induction k)
  case 0
  show ?case by (simp add: queue_sum_def)
next
  case (Suc k)
  have lt: "k < length q" using Suc.prems by simp
  have ih: "unat (queue_sum k q) = sum_list (map unat (take k q))"
    using Suc by simp
  have b1: "sum_list (map unat (take k q)) \<le> k * (2 ^ 32 - 1)"
    using sum_list_unat_bound [of "take k q"] lt by simp
  have b2: "unat (q ! k) < 2 ^ 32" using unsigned_less [of "q ! k"] by simp
  have "unat (q ! k) < 2 ^ 64"
    using b2 by (rule less_trans) simp
  then have uc: "unat (ucast (q ! k) :: u64) = unat (q ! k)"
    by (simp add: unsigned_ucast_eq take_bit_nat_eq_self)
  have "k * (2 ^ 32 - 1) + 2 ^ 32 \<le> (2 ^ 32 - 1) * (2 ^ 32 - 1) + (2 ^ 32 :: nat)"
    using Suc.prems(2) by simp
  then have "sum_list (map unat (take k q)) + unat (q ! k) < 2 ^ 64"
    using b1 b2 by simp
  then have "unat (queue_sum k q) + unat (ucast (q ! k) :: u64) < 2 ^ LENGTH(64)"
    by (simp add: ih uc)
  then have "unat (queue_sum k q + ucast (q ! k)) = unat (queue_sum k q) + unat (ucast (q ! k) :: u64)"
    by (simp only: unat_add_lem)
  then show ?case
    by (simp add: queue_sum_Suc ih uc take_Suc_conv_app_nth [OF lt])
qed

lemma mean_unat:
  assumes "length q = k" and "0 < k" and "k \<le> 2 ^ 32"
  shows "unat (ucast (queue_sum k q div of_nat k) :: u32) = sum_list (map unat q) div k"
proof -
  have s: "unat (queue_sum k q) = sum_list (map unat q)"
    using queue_sum_unat [of k q] assms by simp
  have "k < 2 ^ 64" using assms(3) by (rule le_less_trans) simp
  then have kk: "unat (of_nat k :: u64) = k"
    by (simp add: unat_of_nat)
  have d: "unat (queue_sum k q div of_nat k) = sum_list (map unat q) div k"
    by (simp add: unat_div s kk)
  have "sum_list (map unat q) \<le> k * (2 ^ 32 - 1)"
    using sum_list_unat_bound [of q] assms(1) by simp
  then have "sum_list (map unat q) div k \<le> (k * (2 ^ 32 - 1)) div k"
    by (rule div_le_mono)
  then have "sum_list (map unat q) div k < 2 ^ 32"
    using assms(2) by simp
  then show ?thesis
    by (simp add: unsigned_ucast_eq d take_bit_nat_eq_self)
qed

lemma sum_list_between:
  fixes xs :: "u32 list"
  assumes "\<And>v. v \<in> set xs \<Longrightarrow> lo \<le> unat v \<and> unat v \<le> hi"
  shows "length xs * lo \<le> sum_list (map unat xs) \<and> sum_list (map unat xs) \<le> length xs * hi"
  using assms
proof (induction xs)
  case Nil
  show ?case by simp
next
  case (Cons x xs)
  have "lo \<le> unat x \<and> unat x \<le> hi" using Cons.prems by simp
  moreover have "length xs * lo \<le> sum_list (map unat xs) \<and> sum_list (map unat xs) \<le> length xs * hi"
    using Cons by simp
  ultimately show ?case by simp
qed

lemma mean_between:
  fixes xs :: "u32 list"
  assumes "\<And>v. v \<in> set xs \<Longrightarrow> lo \<le> unat v \<and> unat v \<le> hi" and "xs \<noteq> []"
  shows "lo \<le> sum_list (map unat xs) div length xs \<and> sum_list (map unat xs) div length xs \<le> hi"
proof -
  have pos: "0 < length xs" using assms(2) by simp
  have b: "length xs * lo \<le> sum_list (map unat xs) \<and> sum_list (map unat xs) \<le> length xs * hi"
    using sum_list_between [of xs lo hi] assms(1) by blast
  have "(length xs * lo) div length xs \<le> sum_list (map unat xs) div length xs"
    using b by (intro div_le_mono) simp
  then have l: "lo \<le> sum_list (map unat xs) div length xs" using pos by simp
  have "sum_list (map unat xs) div length xs \<le> (length xs * hi) div length xs"
    using b by (intro div_le_mono) simp
  then have "sum_list (map unat xs) div length xs \<le> hi" using pos by simp
  with l show ?thesis by simp
qed

lemma cursor_unat:
  assumes "0 < k" and "k \<le> 256"
  shows "unat (of_nat (Suc p mod k) :: u8) = Suc p mod k"
proof -
  have "Suc p mod k < k" using assms(1) by simp
  then have "Suc p mod k < 2 ^ 8" using assms(2) by simp
  then show ?thesis by (simp add: unat_of_nat)
qed

lemma running_average_valid:
  assumes "chk_chn cfg channel"
  shows "running_average cfg channel y st =
     (ucast (queue_sum (RUNNING_AVG_SIZE cfg)
               ((queue (r_avg (channel_data st ! unat channel)))
                  [unat (ptr (r_avg (channel_data st ! unat channel))) := y])
             div of_nat (RUNNING_AVG_SIZE cfg)),
      st\<lparr>channel_data := (channel_data st)[unat channel :=
        (channel_data st ! unat channel)\<lparr>r_avg := (r_avg (channel_data st ! unat channel))
          \<lparr>queue := (queue (r_avg (channel_data st ! unat channel)))
                      [unat (ptr (r_avg (channel_data st ! unat channel))) := y],
           ptr := of_nat ((unat (ptr (r_avg (channel_data st ! unat channel))) + 1)
                          mod RUNNING_AVG_SIZE cfg)\<rparr>\<rparr>]\<rparr>)"
  using assms by (simp add: running_average_def Let_def)

lemma wf_state_channel:
  assumes "wf_state cfg st" and "chk_chn cfg channel"
  shows "unat channel < length (channel_data st)"
    and "length (queue (r_avg (channel_data st ! unat channel))) = RUNNING_AVG_SIZE cfg"
    and "unat (ptr (r_avg (channel_data st ! unat channel))) < RUNNING_AVG_SIZE cfg"
proof -
  show len: "unat channel < length (channel_data st)"
    using assms by (simp add: wf_state_def chk_chn_def)
  then have "wf_channel cfg (channel_data st ! unat channel)"
    using assms(1) by (simp add: wf_state_def list_all_length)
  then show "length (queue (r_avg (channel_data st ! unat channel))) = RUNNING_AVG_SIZE cfg"
    and "unat (ptr (r_avg (channel_data st ! unat channel))) < RUNNING_AVG_SIZE cfg"
    by (simp_all add: wf_channel_def)
qed

lemma running_average_queue:
  assumes "wf_state cfg st" and "chk_chn cfg channel"
  shows "queue (r_avg (channel_data (snd (running_average cfg channel y st)) ! unat channel)) =
           (queue (r_avg (channel_data st ! unat channel)))
             [unat (ptr (r_avg (channel_data st ! unat channel))) := y]"
  using wf_state_channel(1) [OF assms]
  by (simp add: running_average_valid [OF assms(2)])

lemma running_average_ptr:
  assumes "valid_config cfg" and "wf_state cfg st" and "chk_chn cfg channel"
  shows "unat (ptr (r_avg (channel_data (snd (running_average cfg channel y st)) ! unat channel))) =
           (unat (ptr (r_avg (channel_data st ! unat channel))) + 1) mod RUNNING_AVG_SIZE cfg"
proof -
  have k: "0 < RUNNING_AVG_SIZE cfg" "RUNNING_AVG_SIZE cfg \<le> 256"
    using assms(1) by (simp_all add: valid_config_def)
  show ?thesis
    using wf_state_channel(1) [OF assms(2,3)]
    by (simp add: running_average_valid [OF assms(3)] cursor_unat [OF k])
qed

lemma running_average_value:
  assumes "valid_config cfg" and "wf_state cfg st" and "chk_chn cfg channel"
  shows "unat (fst (running_average cfg channel y st)) =
           sum_list (map unat
             (queue (r_avg (channel_data (snd (running_average cfg channel y st)) ! unat channel))))
           div RUNNING_AVG_SIZE cfg"
proof -
  have k: "0 < RUNNING_AVG_SIZE cfg" "RUNNING_AVG_SIZE cfg \<le> 2 ^ 32"
    using assms(1) by (simp_all add: valid_config_def)
  have q: "length (queue (r_avg (channel_data st ! unat channel))) = RUNNING_AVG_SIZE cfg"
    by (rule wf_state_channel(2) [OF assms(2,3)])
  have m: "unat (ucast (queue_sum (RUNNING_AVG_SIZE cfg)
               ((queue (r_avg (channel_data st ! unat channel)))
                  [unat (ptr (r_avg (channel_data st ! unat channel))) := y])
             div of_nat (RUNNING_AVG_SIZE cfg)) :: u32) =
           sum_list (map unat ((queue (r_avg (channel_data st ! unat channel)))
                  [unat (ptr (r_avg (channel_data st ! unat channel))) := y]))
           div RUNNING_AVG_SIZE cfg"
    using k by (intro mean_unat) (simp_all add: q)
  show ?thesis
    unfolding running_average_queue [OF assms(2,3)]
    by (simp add: running_average_valid [OF assms(3)] m)
qed

text \<open>
  Claim C6. For a valid channel of a well-formed state, \<open>running_average\<close> overwrites
  the slot at the cursor with the input, advances the cursor modulo
  \<open>RUNNING_AVG_SIZE\<close>, and returns the truncated mean of all slots of the new buffer:
  the 64-bit sum does not overflow and the quotient fits the 32-bit result. The witness
  is the zero-filled buffer of ten slots: the input 2000 yields 200.
\<close>

theorem running_average_mean:
  assumes "valid_config cfg" and "wf_state cfg st" and "chk_chn cfg channel"
  shows "queue (r_avg (channel_data (snd (running_average cfg channel y st)) ! unat channel)) =
           (queue (r_avg (channel_data st ! unat channel)))
             [unat (ptr (r_avg (channel_data st ! unat channel))) := y]
       \<and> unat (ptr (r_avg (channel_data (snd (running_average cfg channel y st)) ! unat channel))) =
           (unat (ptr (r_avg (channel_data st ! unat channel))) + 1) mod RUNNING_AVG_SIZE cfg
       \<and> unat (fst (running_average cfg channel y st)) =
           sum_list (map unat
             (queue (r_avg (channel_data (snd (running_average cfg channel y st)) ! unat channel))))
           div RUNNING_AVG_SIZE cfg"
  using running_average_queue [OF assms(2,3)] running_average_ptr [OF assms]
    running_average_value [OF assms]
  by (intro conjI)

theorem running_average_mean_witness:
  "valid_config default_config \<and> wf_state default_config init_state \<and> chk_chn default_config 0
   \<and> (queue (r_avg (channel_data (snd (running_average default_config 0 2000 init_state)) ! unat (0 :: u8))) =
           (queue (r_avg (channel_data init_state ! unat (0 :: u8))))
             [unat (ptr (r_avg (channel_data init_state ! unat (0 :: u8)))) := 2000]
       \<and> unat (ptr (r_avg (channel_data (snd (running_average default_config 0 2000 init_state)) ! unat (0 :: u8)))) =
           (unat (ptr (r_avg (channel_data init_state ! unat (0 :: u8)))) + 1) mod RUNNING_AVG_SIZE default_config
       \<and> unat (fst (running_average default_config 0 2000 init_state)) =
           sum_list (map unat
             (queue (r_avg (channel_data (snd (running_average default_config 0 2000 init_state)) ! unat (0 :: u8)))))
           div RUNNING_AVG_SIZE default_config)
   \<and> queue (r_avg (channel_data init_state ! unat (0 :: u8))) = [0, 0, 0, 0, 0, 0, 0, 0, 0, 0]
   \<and> queue (r_avg (channel_data (snd (running_average default_config 0 2000 init_state)) ! unat (0 :: u8))) =
        [2000, 0, 0, 0, 0, 0, 0, 0, 0, 0]
   \<and> ptr (r_avg (channel_data (snd (running_average default_config 0 2000 init_state)) ! unat (0 :: u8))) = 1
   \<and> fst (running_average default_config 0 2000 init_state) = 200"
proof -
  have v: "valid_config default_config" by code_simp
  have w: "wf_state default_config init_state" by code_simp
  have c: "chk_chn default_config 0" by code_simp
  have e0: "queue (r_avg (channel_data init_state ! unat (0 :: u8))) = [0, 0, 0, 0, 0, 0, 0, 0, 0, 0]"
    by code_simp
  have e1: "queue (r_avg (channel_data (snd (running_average default_config 0 2000 init_state)) ! unat (0 :: u8))) =
        [2000, 0, 0, 0, 0, 0, 0, 0, 0, 0]"
    by code_simp
  have e2: "ptr (r_avg (channel_data (snd (running_average default_config 0 2000 init_state)) ! unat (0 :: u8))) = 1"
    by code_simp
  have e3: "fst (running_average default_config 0 2000 init_state) = 200"
    by code_simp
  from running_average_mean [OF v w c, of 2000] v w c e0 e1 e2 e3 show ?thesis
    by blast
qed

text \<open>
  Claim C7. The value returned by \<open>running_average\<close> lies between the least and the
  greatest of the values in the channel's buffer after the new value has been written.
\<close>

theorem running_average_between:
  assumes "valid_config cfg" and "wf_state cfg st" and "chk_chn cfg channel"
  shows "Min (set (queue (r_avg (channel_data (snd (running_average cfg channel y st)) ! unat channel))))
           \<le> fst (running_average cfg channel y st)
       \<and> fst (running_average cfg channel y st)
           \<le> Max (set (queue (r_avg (channel_data (snd (running_average cfg channel y st)) ! unat channel))))"
proof -
  let ?q = "queue (r_avg (channel_data (snd (running_average cfg channel y st)) ! unat channel))"
  have len: "length ?q = RUNNING_AVG_SIZE cfg"
    by (simp add: running_average_queue [OF assms(2,3)] wf_state_channel(2) [OF assms(2,3)])
  have "0 < RUNNING_AVG_SIZE cfg" using assms(1) by (simp add: valid_config_def)
  then have ne: "?q \<noteq> []" using len by auto
  have "\<And>v. v \<in> set ?q \<Longrightarrow> unat (Min (set ?q)) \<le> unat v \<and> unat v \<le> unat (Max (set ?q))"
    by (simp add: word_le_nat_alt [symmetric])
  then have "unat (Min (set ?q)) \<le> sum_list (map unat ?q) div length ?q
          \<and> sum_list (map unat ?q) div length ?q \<le> unat (Max (set ?q))"
    using ne by (rule mean_between)
  then show ?thesis
    by (simp add: word_le_nat_alt running_average_value [OF assms] len)
qed

theorem running_average_between_witness:
  "valid_config default_config \<and> wf_state default_config init_state \<and> chk_chn default_config 0
   \<and> (Min (set (queue (r_avg (channel_data (snd (running_average default_config 0 2000 init_state)) ! unat (0 :: u8)))))
           \<le> fst (running_average default_config 0 2000 init_state)
       \<and> fst (running_average default_config 0 2000 init_state)
           \<le> Max (set (queue (r_avg (channel_data (snd (running_average default_config 0 2000 init_state)) ! unat (0 :: u8))))))
   \<and> Min (set (queue (r_avg (channel_data (snd (running_average default_config 0 2000 init_state)) ! unat (0 :: u8))))) = 0
   \<and> Max (set (queue (r_avg (channel_data (snd (running_average default_config 0 2000 init_state)) ! unat (0 :: u8))))) = 2000"
proof -
  have v: "valid_config default_config" by code_simp
  have w: "wf_state default_config init_state" by code_simp
  have c: "chk_chn default_config 0" by code_simp
  have e1: "queue (r_avg (channel_data (snd (running_average default_config 0 2000 init_state)) ! unat (0 :: u8))) =
        [2000, 0, 0, 0, 0, 0, 0, 0, 0, 0]"
    by code_simp
  have e2: "Min (set (queue (r_avg (channel_data (snd (running_average default_config 0 2000 init_state)) ! unat (0 :: u8))))) = 0"
    unfolding e1 by simp
  have e3: "Max (set (queue (r_avg (channel_data (snd (running_average default_config 0 2000 init_state)) ! unat (0 :: u8))))) = 2000"
    unfolding e1 by simp
  from running_average_between [OF v w c, of 2000] v w c e2 e3 show ?thesis
    by blast
qed

section \<open>The accessor functions: validation and contention\<close>

text \<open>
  Claim C9. Each of the six accessor functions, called with a channel index greater than
  or equal to \<^verbatim>\<open>ADC_MAX_CHANNELS\<close>, returns \<^verbatim>\<open>ESP_ERR_INVALID_ARG\<close> whatever the mutex
  would answer, so the check comes before any attempt to take it; the code differs
  from \<^verbatim>\<open>ESP_ERR_TIMEOUT\<close>; the getters only read the state, and the setters return the
  state and the flash store as they were. The witness is channel 4 of four while the
  mutex is held.
\<close>

theorem invalid_channel_rejected:
  assumes "ADC_MAX_CHANNELS cfg \<le> unat channel"
  shows "adc_get_raw cfg sem st channel v_null wait = Inl ESP_ERR_INVALID_ARG
       \<and> adc_get_normalized cfg sem st channel v_null wait = Inl ESP_ERR_INVALID_ARG
       \<and> adc_get_calibration cfg sem st channel min_null max_null = Inl ESP_ERR_INVALID_ARG
       \<and> adc_get_hysteresis cfg sem st channel hysteresis_null = Inl ESP_ERR_INVALID_ARG
       \<and> adc_set_calibration cfg sem st nvs channel mn mx = (ESP_ERR_INVALID_ARG, st, nvs)
       \<and> adc_set_hysteresis cfg sem st nvs channel h = (ESP_ERR_INVALID_ARG, st, nvs)
       \<and> ESP_ERR_INVALID_ARG \<noteq> ESP_ERR_TIMEOUT"
proof -
  have "\<not> chk_chn cfg channel" using assms by (simp add: chk_chn_def)
  then show ?thesis
    by (simp add: adc_get_raw_def adc_get_normalized_def adc_get_calibration_def
          adc_get_hysteresis_def adc_set_calibration_def adc_set_hysteresis_def)
qed

theorem invalid_channel_rejected_witness:
  "ADC_MAX_CHANNELS default_config \<le> unat (4 :: u8)
   \<and> adc_get_raw default_config (busy_mutex 50) init_state 4 False 100 = Inl ESP_ERR_INVALID_ARG
   \<and> adc_get_normalized default_config (busy_mutex 50) init_state 4 False 100 = Inl ESP_ERR_INVALID_ARG
   \<and> adc_get_calibration default_config (busy_mutex 50) init_state 4 False False = Inl ESP_ERR_INVALID_ARG
   \<and> adc_get_hysteresis default_config (busy_mutex 50) init_state 4 False = Inl ESP_ERR_INVALID_ARG
   \<and> adc_set_calibration default_config (busy_mutex 50) init_state empty_nvs 4 100 3900 =
        (ESP_ERR_INVALID_ARG, init_state, empty_nvs)
   \<and> adc_set_hysteresis default_config (busy_mutex 50) init_state empty_nvs 4 50 =
        (ESP_ERR_INVALID_ARG, init_state, empty_nvs)
   \<and> ESP_ERR_INVALID_ARG \<noteq> ESP_ERR_TIMEOUT"
proof -
  have h: "ADC_MAX_CHANNELS default_config \<le> unat (4 :: u8)" by code_simp
  from invalid_channel_rejected [OF h] h show ?thesis by blast
qed

text \<open>
  Claim C10. \<open>adc_set_calibration\<close> with \<open>min \<ge> max\<close> or \<open>max > 2 ^ 12\<close> returns
  \<^verbatim>\<open>ESP_ERR_INVALID_ARG\<close> and leaves the whole state, hence the calibration bounds and the
  hysteresis window of the channel, and the flash store unchanged.
\<close>

theorem adc_set_calibration_rejects:
  assumes "unat mx \<le> unat mn \<or> 2 ^ 12 < unat mx"
  shows "adc_set_calibration cfg sem st nvs channel mn mx = (ESP_ERR_INVALID_ARG, st, nvs)"
proof -
  have "unat ADC_MAX = 2 ^ 12" by (simp add: ADC_MAX_def)
  then have "mx \<le> mn \<or> ADC_MAX < mx"
    using assms by (simp add: word_le_nat_alt word_less_nat_alt)
  then show ?thesis by (auto simp add: adc_set_calibration_def)
qed

theorem adc_set_calibration_rejects_witness:
  "(unat (1000 :: u32) \<le> unat (3000 :: u32) \<or> 2 ^ 12 < unat (1000 :: u32))
   \<and> adc_set_calibration default_config free_mutex init_state empty_nvs 0 3000 1000 =
        (ESP_ERR_INVALID_ARG, init_state, empty_nvs)
   \<and> (unat (4097 :: u32) \<le> unat (0 :: u32) \<or> 2 ^ 12 < unat (4097 :: u32))
   \<and> adc_set_calibration default_config free_mutex init_state empty_nvs 0 0 4097 =
        (ESP_ERR_INVALID_ARG, init_state, empty_nvs)"
proof -
  have h1: "unat (1000 :: u32) \<le> unat (3000 :: u32) \<or> 2 ^ 12 < unat (1000 :: u32)" by simp
  have h2: "unat (4097 :: u32) \<le> unat (0 :: u32) \<or> 2 ^ 12 < unat (4097 :: u32)" by simp
  from adc_set_calibration_rejects [OF h1] adc_set_calibration_rejects [OF h2] h1 h2
  show ?thesis by blast
qed

text \<open>
  Claim C8, as amended. Only \<open>adc_get_raw\<close> and \<open>adc_get_normalized\<close> have a
  parameter for the wait; the other four accessors wait \<^verbatim>\<open>pdMS_TO_TICKS(100)\<close>. Called
  with valid arguments, an accessor that cannot take the mutex within its budget returns
  \<^verbatim>\<open>ESP_ERR_TIMEOUT\<close>, which differs from \<^verbatim>\<open>ESP_ERR_INVALID_ARG\<close>, and the setters leave
  the state and the flash store unchanged.
\<close>

theorem lock_timeout:
  assumes "chk_chn cfg channel"
  shows "(\<not> v_null \<and> \<not> sem wait \<longrightarrow>
            adc_get_raw cfg sem st channel v_null wait = Inl ESP_ERR_TIMEOUT)
       \<and> (\<not> v_null \<and> \<not> sem wait \<longrightarrow>
            adc_get_normalized cfg sem st channel v_null wait = Inl ESP_ERR_TIMEOUT)
       \<and> (\<not> min_null \<and> \<not> max_null \<and> \<not> sem (pdMS_TO_TICKS cfg 100) \<longrightarrow>
            adc_get_calibration cfg sem st channel min_null max_null = Inl ESP_ERR_TIMEOUT)
       \<and> (\<not> hysteresis_null \<and> \<not> sem (pdMS_TO_TICKS cfg 100) \<longrightarrow>
            adc_get_hysteresis cfg sem st channel hysteresis_null = Inl ESP_ERR_TIMEOUT)
       \<and> (mn < mx \<and> mx \<le> ADC_MAX \<and> \<not> sem (pdMS_TO_TICKS cfg 100) \<longrightarrow>
            adc_set_calibration cfg sem st nvs channel mn mx = (ESP_ERR_TIMEOUT, st, nvs))
       \<and> (h \<noteq> 0 \<and> h \<le> 1000 \<and> \<not> sem (pdMS_TO_TICKS cfg 100) \<longrightarrow>
            adc_set_hysteresis cfg sem st nvs channel h = (ESP_ERR_TIMEOUT, st, nvs))
       \<and> ESP_ERR_TIMEOUT \<noteq> ESP_ERR_INVALID_ARG"
  using assms
  by (simp add: adc_get_raw_def adc_get_normalized_def adc_get_calibration_def
        adc_get_hysteresis_def adc_set_calibration_def adc_set_hysteresis_def not_le not_less)

theorem lock_timeout_witness:
  "chk_chn default_config 0
   \<and> \<not> busy_mutex 50 20 \<and> \<not> busy_mutex 50 (pdMS_TO_TICKS default_config 100)
   \<and> (100 :: u32) < 3900 \<and> (3900 :: u32) \<le> ADC_MAX \<and> (50 :: u32) \<noteq> 0 \<and> (50 :: u32) \<le> 1000
   \<and> adc_get_raw default_config (busy_mutex 50) init_state 0 False 20 = Inl ESP_ERR_TIMEOUT
   \<and> adc_get_normalized default_config (busy_mutex 50) init_state 0 False 20 = Inl ESP_ERR_TIMEOUT
   \<and> adc_get_calibration default_config (busy_mutex 50) init_state 0 False False = Inl ESP_ERR_TIMEOUT
   \<and> adc_get_hysteresis default_config (busy_mutex 50) init_state 0 False = Inl ESP_ERR_TIMEOUT
   \<and> adc_set_calibration default_config (busy_mutex 50) init_state empty_nvs 0 100 3900 =
        (ESP_ERR_TIMEOUT, init_state, empty_nvs)
   \<and> adc_set_hysteresis default_config (busy_mutex 50) init_state empty_nvs 0 50 =
        (ESP_ERR_TIMEOUT, init_state, empty_nvs)"
proof -
  have c: "chk_chn default_config 0" by code_simp
  have s1: "\<not> busy_mutex 50 20" by code_simp
  have s2: "\<not> busy_mutex 50 (pdMS_TO_TICKS default_config 100)" by code_simp
  have a1: "(100 :: u32) < 3900" by simp
  have a2: "(3900 :: u32) \<le> ADC_MAX" by code_simp
  have a3: "(50 :: u32) \<noteq> 0" by simp
  have a4: "(50 :: u32) \<le> 1000" by simp
  from lock_timeout [OF c, where v_null = False and sem = "busy_mutex 50" and wait = 20
      and min_null = False and max_null = False and hysteresis_null = False
      and mn = 100 and mx = 3900 and h = 50 and st = init_state and nvs = empty_nvs]
    c s1 s2 a1 a2 a3 a4
  show ?thesis by blast
qed

text \<open>
  Claim C8 as stated fails: while the mutex becomes free within 50 ticks, a caller ready
  to wait 100 ticks reads the raw and the filtered value, but \<open>adc_get_calibration\<close>,
  \<open>adc_get_hysteresis\<close>, \<open>adc_set_calibration\<close> and \<open>adc_set_hysteresis\<close>, which
  accept no wait duration, give up after the 10 ticks of their fixed 100 ms.
\<close>

theorem caller_wait_counterexample:
  "busy_mutex 50 100
   \<and> adc_get_raw default_config (busy_mutex 50) init_state 0 False 100 = Inr 0
   \<and> adc_get_normalized default_config (busy_mutex 50) init_state 0 False 100 = Inr 0
   \<and> adc_get_calibration default_config (busy_mutex 50) init_state 0 False False = Inl ESP_ERR_TIMEOUT
   \<and> adc_get_hysteresis default_config (busy_mutex 50) init_state 0 False = Inl ESP_ERR_TIMEOUT
   \<and> fst (adc_set_calibration default_config (busy_mutex 50) init_state empty_nvs 0 100 3900) =
        ESP_ERR_TIMEOUT
   \<and> fst (adc_set_hysteresis default_config (busy_mutex 50) init_state empty_nvs 0 50) =
        ESP_ERR_TIMEOUT"
  by code_simp

section \<open>The filtered value and the calibration bounds\<close>

subsection \<open>From the module state to the record of one channel\<close>

lemma running_hyst_record:
  assumes "chk_chn cfg channel" and "unat channel < length (channel_data st)"
  shows "running_hyst cfg channel x st =
           (fst (hyst_record (channel_data st ! unat channel) x),
            st\<lparr>channel_data := (channel_data st)[unat channel :=
                 snd (hyst_record (channel_data st ! unat channel) x)]\<rparr>)"
  using assms
  by (simp add: running_hyst_def hyst_record_def set_window_def Let_def)

lemma running_average_record:
  assumes "chk_chn cfg channel"
  shows "running_average cfg channel y st =
           (fst (avg_record cfg (channel_data st ! unat channel) y),
            st\<lparr>channel_data := (channel_data st)[unat channel :=
                 snd (avg_record cfg (channel_data st ! unat channel) y)]\<rparr>)"
  using assms
  by (simp add: running_average_def avg_record_def Let_def)

lemma channel_index_unat:
  assumes "ch < ADC_MAX_CHANNELS cfg" and "ADC_MAX_CHANNELS cfg \<le> 6"
  shows "unat (of_nat ch :: u8) = ch"
proof -
  have "ch < 2 ^ 8" using assms by simp
  then show ?thesis by (simp add: unat_of_nat)
qed

lemma update_channel_record:
  assumes "ch < ADC_MAX_CHANNELS cfg" and "ADC_MAX_CHANNELS cfg \<le> 6"
    and "length (channel_data st) = ADC_MAX_CHANNELS cfg"
  shows "update_channel cfg ch raw st =
           st\<lparr>channel_data := (channel_data st)[ch :=
                sample_record cfg (channel_data st ! ch) raw]\<rparr>"
proof -
  have u: "unat (of_nat ch :: u8) = ch" by (rule channel_index_unat [OF assms(1,2)])
  have c: "chk_chn cfg (of_nat ch)" using assms(1) by (simp add: chk_chn_def u)
  have l: "ch < length (channel_data st)" using assms by simp
  show ?thesis
    using l
    by (simp add: update_channel_def sample_record_def Let_def
          running_hyst_record [OF c] running_average_record [OF c] u split_beta)
qed


subsection \<open>The hysteresis filter keeps its output inside the bounds\<close>

text \<open>The facts of \<open>cal_ok\<close>, \<open>window_inv\<close> and \<open>in_cal\<close> as natural numbers.\<close>

lemma cal_ok_unat:
  assumes "cal_ok cd"
  shows "unat (min_cal cd) < unat (max_cal cd)"
    and "unat (max_cal cd) \<le> 4096"
    and "0 < unat (hysteresis (r_hyst cd))"
    and "unat (hysteresis (r_hyst cd)) \<le> unat (max_cal cd) - unat (min_cal cd)"
proof -
  show lt: "unat (min_cal cd) < unat (max_cal cd)"
    using assms by (simp add: cal_ok_def word_less_nat_alt)
  have "unat ADC_MAX = 4096" by (simp add: ADC_MAX_def)
  then show "unat (max_cal cd) \<le> 4096"
    using assms by (simp add: cal_ok_def word_le_nat_alt)
  show "0 < unat (hysteresis (r_hyst cd))"
    using assms by (simp add: cal_ok_def word_less_nat_alt)
  have "min_cal cd \<le> max_cal cd" using lt by (simp add: word_le_nat_alt)
  then have "unat (max_cal cd - min_cal cd) = unat (max_cal cd) - unat (min_cal cd)"
    by (simp add: unat_sub)
  then show "unat (hysteresis (r_hyst cd)) \<le> unat (max_cal cd) - unat (min_cal cd)"
    using assms by (simp add: cal_ok_def word_le_nat_alt)
qed

lemma window_inv_unat:
  "window_inv cd \<longleftrightarrow>
     unat (hyst_max (r_hyst cd)) \<le> unat (max_cal cd) \<and>
     unat (min_cal cd) \<le> unat (hyst_max (r_hyst cd)) \<and>
     (unat (hyst_min (r_hyst cd)) \<le> unat (hyst_max (r_hyst cd)) \<longrightarrow>
        unat (min_cal cd) \<le> unat (hyst_min (r_hyst cd)) +
          (unat (hyst_max (r_hyst cd)) - unat (hyst_min (r_hyst cd))) div 2)"
proof (cases "hyst_min (r_hyst cd) \<le> hyst_max (r_hyst cd)")
  case True
  then have "unat (hyst_min (r_hyst cd)) \<le> unat (hyst_max (r_hyst cd))"
    by (simp add: word_le_nat_alt)
  then show ?thesis
    using True
    by (simp add: window_inv_def word_le_nat_alt [of "min_cal cd"] midpoint_unat [OF True]
          word_le_nat_alt [of "hyst_max (r_hyst cd)"])
next
  case False
  then show ?thesis
    by (simp add: window_inv_def word_le_nat_alt)
qed

lemma in_cal_unat: "in_cal cd v \<longleftrightarrow> unat (min_cal cd) \<le> unat v \<and> unat v \<le> unat (max_cal cd)"
  by (simp add: in_cal_def word_le_nat_alt)


lemma hyst_record_inside:
  assumes "hyst_min (r_hyst cd) \<le> x" and "x \<le> hyst_max (r_hyst cd)"
  shows "hyst_record cd x =
           (hyst_min (r_hyst cd) + (hyst_max (r_hyst cd) - hyst_min (r_hyst cd)) div 2, cd)"
  using assms by (simp add: hyst_record_def Let_def)

lemma hyst_record_above:
  assumes "hyst_max (r_hyst cd) < x"
  shows "fst (hyst_record cd x) = x"
    and "hyst_max (r_hyst (snd (hyst_record cd x))) =
           MIN_u32 (x + hysteresis (r_hyst cd) div 2) (max_cal cd)"
    and "hyst_min (r_hyst (snd (hyst_record cd x))) =
           (if MIN_u32 (x + hysteresis (r_hyst cd) div 2) (max_cal cd) > hysteresis (r_hyst cd)
            then MIN_u32 (x + hysteresis (r_hyst cd) div 2) (max_cal cd) - hysteresis (r_hyst cd)
            else 0)"
proof -
  have n: "\<not> x \<le> hyst_max (r_hyst cd)" using assms by (simp add: not_le)
  show "fst (hyst_record cd x) = x"
    using n assms by (simp add: hyst_record_def Let_def)
  show "hyst_max (r_hyst (snd (hyst_record cd x))) =
           MIN_u32 (x + hysteresis (r_hyst cd) div 2) (max_cal cd)"
    using n assms by (simp add: hyst_record_def Let_def)
  show "hyst_min (r_hyst (snd (hyst_record cd x))) =
           (if MIN_u32 (x + hysteresis (r_hyst cd) div 2) (max_cal cd) > hysteresis (r_hyst cd)
            then MIN_u32 (x + hysteresis (r_hyst cd) div 2) (max_cal cd) - hysteresis (r_hyst cd)
            else 0)"
    using n assms by (simp add: hyst_record_def Let_def)
qed

lemma hyst_record_below:
  assumes "x < hyst_min (r_hyst cd)" and "x \<le> hyst_max (r_hyst cd)"
  shows "fst (hyst_record cd x) = x"
    and "hyst_min (r_hyst (snd (hyst_record cd x))) =
           MAX_u32 (x - hysteresis (r_hyst cd) div 2) (min_cal cd)"
    and "hyst_max (r_hyst (snd (hyst_record cd x))) =
           MIN_u32 (MAX_u32 (x - hysteresis (r_hyst cd) div 2) (min_cal cd) + hysteresis (r_hyst cd))
             (max_cal cd)"
proof -
  have n: "\<not> hyst_min (r_hyst cd) \<le> x" "\<not> hyst_max (r_hyst cd) < x"
    using assms by (simp_all add: not_le not_less)
  show "fst (hyst_record cd x) = x"
    using n by (simp add: hyst_record_def Let_def)
  show "hyst_min (r_hyst (snd (hyst_record cd x))) =
           MAX_u32 (x - hysteresis (r_hyst cd) div 2) (min_cal cd)"
    using n by (simp add: hyst_record_def Let_def)
  show "hyst_max (r_hyst (snd (hyst_record cd x))) =
           MIN_u32 (MAX_u32 (x - hysteresis (r_hyst cd) div 2) (min_cal cd) + hysteresis (r_hyst cd))
             (max_cal cd)"
    using n by (simp add: hyst_record_def Let_def)
qed

text \<open>The filter touches nothing but the two ends of the window.\<close>

lemma hyst_record_frame:
  "min_cal (snd (hyst_record cd x)) = min_cal cd"
  "max_cal (snd (hyst_record cd x)) = max_cal cd"
  "hysteresis (r_hyst (snd (hyst_record cd x))) = hysteresis (r_hyst cd)"
  "r_avg (snd (hyst_record cd x)) = r_avg cd"
  "raw_value (snd (hyst_record cd x)) = raw_value cd"
  "normalized_value (snd (hyst_record cd x)) = normalized_value cd"
  by (simp_all add: hyst_record_def Let_def)


lemma above_arith:
  fixes x h cmin cmax wmax mx mn :: nat
  assumes "cmin < cmax" and "0 < h" and "h \<le> cmax - cmin"
    and "cmin \<le> wmax" and "wmax < x" and "x \<le> cmax"
    and "mx = min (x + h div 2) cmax"
    and "mn = (if h < mx then mx - h else 0)"
  shows "mx \<le> cmax" and "cmin \<le> mx" and "cmin \<le> mn + (mx - mn) div 2"
proof -
  show "mx \<le> cmax" using assms(7) by simp
  show "cmin \<le> mx" using assms(1,4,5,6,7) by simp
  show "cmin \<le> mn + (mx - mn) div 2"
  proof (cases "h < mx")
    case True
    then have mn: "mn = mx - h" using assms(8) by simp
    have "mx - mn = h" using True mn by simp
    then have m: "mn + (mx - mn) div 2 = mx - h + h div 2" using mn by simp
    show ?thesis
    proof (cases "x + h div 2 \<le> cmax")
      case True
      then have "mx = x + h div 2" using assms(7) by simp
      then have "mx - h + h div 2 = x + h div 2 + h div 2 - h" using \<open>h < mx\<close> by simp
      moreover have "x + h div 2 + h div 2 - h \<ge> x - 1" by arith
      moreover have "cmin \<le> x - 1" using assms(4,5) by simp
      ultimately show ?thesis using m by simp
    next
      case False
      then have "mx = cmax" using assms(7) by simp
      moreover have "cmin + h \<le> cmax" using assms(1,3) by simp
      ultimately have "cmin \<le> mx - h + h div 2" by simp
      then show ?thesis using m by simp
    qed
  next
    case False
    then have mn: "mn = 0" using assms(8) by simp
    have le: "mx \<le> h" using False by simp
    show ?thesis
    proof (cases "x + h div 2 \<le> cmax")
      case True
      then have e: "mx = x + h div 2" using assms(7) by simp
      have "cmin + 1 \<le> x" using assms(4,5) by simp
      moreover have "x + h div 2 \<le> h" using le e by simp
      ultimately have "2 * cmin \<le> x + h div 2" by arith
      then show ?thesis using mn e by simp
    next
      case False
      then have "mx = cmax" using assms(7) by simp
      then have "cmin = 0" using le assms(1,3) by simp
      then show ?thesis by simp
    qed
  qed
qed

lemma below_arith:
  fixes x h cmin cmax a b mx mn :: nat
  assumes "cmin < cmax" and "cmax \<le> 4096" and "0 < h" and "h \<le> cmax - cmin"
    and "cmin \<le> x" and "x \<le> cmax"
    and "a = (if h div 2 \<le> x then x - h div 2 else x + 2 ^ 32 - h div 2)"
    and "mn = max a cmin"
    and "b = (if mn + h < 2 ^ 32 then mn + h else mn + h - 2 ^ 32)"
    and "mx = min b cmax"
  shows "mx \<le> cmax" and "cmin \<le> mx" and "cmin \<le> mn + (mx - mn) div 2"
proof -
  have h4: "h \<le> 4096" using assms(2,4) by simp
  show "mx \<le> cmax" using assms(10) by simp
  show "cmin \<le> mn + (mx - mn) div 2" using assms(8) by simp
  show "cmin \<le> mx"
  proof (cases "h div 2 \<le> x")
    case True
    then have "a \<le> x" using assms(7) by simp
    then have "mn \<le> 4096" using assms(1,2,6,8) by simp
    then have "mn + h < 2 ^ 32" using h4 by simp
    then have "b = mn + h" using assms(9) by simp
    then have "cmin \<le> b" using assms(8) by simp
    then show ?thesis using assms(1,10) by simp
  next
    case False
    then have a: "a = x + 2 ^ 32 - h div 2" using assms(7) by simp
    have "h div 2 \<le> 2048" using h4 by simp
    then have "cmin \<le> a" using a assms(1,2) by simp
    then have mn: "mn = a" using assms(8) by simp
    have "2 ^ 32 \<le> mn + h" using mn a by simp
    then have "b = mn + h - 2 ^ 32" using assms(9) by simp
    then have "b = x + h - h div 2" using mn a \<open>h div 2 \<le> 2048\<close> by simp
    then have "cmin \<le> b" using assms(5) by simp
    then show ?thesis using assms(1,10) by simp
  qed
qed


lemma minus_half_unat:
  fixes x h :: u32
  shows "unat (x - h div 2) =
           (if unat h div 2 \<le> unat x then unat x - unat h div 2
            else unat x + 2 ^ 32 - unat h div 2)"
  by (simp add: unat_sub_if_size half_unat word_size)

lemma plus_width_unat:
  fixes m h :: u32
  shows "unat (m + h) =
           (if unat m + unat h < 2 ^ 32 then unat m + unat h else unat m + unat h - 2 ^ 32)"
  using unat_plus_if' [of m h] by simp

lemma hyst_record_window_inv:
  assumes "cal_ok cd" and "window_inv cd" and "in_cal cd x"
  shows "window_inv (snd (hyst_record cd x))"
proof -
  note c = cal_ok_unat [OF assms(1)]
  have w: "unat (min_cal cd) \<le> unat (hyst_max (r_hyst cd))"
    using assms(2) by (simp add: window_inv_unat)
  have i: "unat (min_cal cd) \<le> unat x" "unat x \<le> unat (max_cal cd)"
    using assms(3) by (simp_all add: in_cal_unat)
  consider (inside) "hyst_min (r_hyst cd) \<le> x" "x \<le> hyst_max (r_hyst cd)"
    | (above) "hyst_max (r_hyst cd) < x"
    | (below) "x < hyst_min (r_hyst cd)" "x \<le> hyst_max (r_hyst cd)"
    by (meson not_le)
  then show ?thesis
  proof cases
    case inside
    then show ?thesis using assms(2) by (simp add: hyst_record_inside)
  next
    case above
    have lt: "unat (hyst_max (r_hyst cd)) < unat x"
      using above by (simp add: word_less_nat_alt)
    have x12: "unat x \<le> 2 ^ 12" using i(2) c(2) by simp
    have mx: "unat (hyst_max (r_hyst (snd (hyst_record cd x)))) =
                min (unat x + unat (hysteresis (r_hyst cd)) div 2) (unat (max_cal cd))"
      by (simp add: hyst_record_above(2) [OF above] MIN_u32_unat plus_half_unat [OF x12])
    have mn: "unat (hyst_min (r_hyst (snd (hyst_record cd x)))) =
                (if unat (hysteresis (r_hyst cd)) < unat (hyst_max (r_hyst (snd (hyst_record cd x))))
                 then unat (hyst_max (r_hyst (snd (hyst_record cd x)))) - unat (hysteresis (r_hyst cd))
                 else 0)"
      unfolding hyst_record_above(3) [OF above] hyst_record_above(2) [OF above]
      by (rule window_floor_unat)
    show ?thesis
      using above_arith [OF c(1) c(3) c(4) w lt i(2) mx mn]
      by (simp add: window_inv_unat hyst_record_frame)
  next
    case below
    have mn: "unat (hyst_min (r_hyst (snd (hyst_record cd x)))) =
                max (unat (x - hysteresis (r_hyst cd) div 2)) (unat (min_cal cd))"
      by (simp add: hyst_record_below(2) [OF below] MAX_u32_unat)
    have mx: "unat (hyst_max (r_hyst (snd (hyst_record cd x)))) =
                min (unat (hyst_min (r_hyst (snd (hyst_record cd x))) + hysteresis (r_hyst cd)))
                    (unat (max_cal cd))"
      by (simp add: hyst_record_below(2,3) [OF below] MIN_u32_unat)
    show ?thesis
      using below_arith [OF c(1) c(2) c(3) c(4) i(1) i(2) minus_half_unat mn plus_width_unat mx]
      by (simp add: window_inv_unat hyst_record_frame)
  qed
qed

lemma hyst_record_in_cal:
  assumes "cal_ok cd" and "window_inv cd" and "in_cal cd x"
  shows "in_cal cd (fst (hyst_record cd x))"
proof -
  consider (inside) "hyst_min (r_hyst cd) \<le> x" "x \<le> hyst_max (r_hyst cd)"
    | (above) "hyst_max (r_hyst cd) < x"
    | (below) "x < hyst_min (r_hyst cd)" "x \<le> hyst_max (r_hyst cd)"
    by (meson not_le)
  then show ?thesis
  proof cases
    case inside
    have le: "hyst_min (r_hyst cd) \<le> hyst_max (r_hyst cd)"
      using inside by (rule order_trans)
    then have n: "unat (hyst_min (r_hyst cd)) \<le> unat (hyst_max (r_hyst cd))"
      by (simp add: word_le_nat_alt)
    have "unat (min_cal cd) \<le> unat (hyst_min (r_hyst cd)) +
            (unat (hyst_max (r_hyst cd)) - unat (hyst_min (r_hyst cd))) div 2"
      and "unat (hyst_max (r_hyst cd)) \<le> unat (max_cal cd)"
      using assms(2) n by (simp_all add: window_inv_unat)
    moreover have "unat (hyst_min (r_hyst cd)) +
            (unat (hyst_max (r_hyst cd)) - unat (hyst_min (r_hyst cd))) div 2
            \<le> unat (hyst_max (r_hyst cd))"
      using n by simp
    ultimately show ?thesis
      by (simp add: hyst_record_inside [OF inside] in_cal_unat midpoint_unat [OF le])
  next
    case above
    then show ?thesis using assms(3) by (simp add: hyst_record_above(1))
  next
    case below
    then show ?thesis using assms(3) by (simp add: hyst_record_below(1))
  qed
qed


subsection \<open>The running average keeps its output inside the bounds\<close>

lemma avg_record_frame:
  "min_cal (snd (avg_record cfg cd y)) = min_cal cd"
  "max_cal (snd (avg_record cfg cd y)) = max_cal cd"
  "r_hyst (snd (avg_record cfg cd y)) = r_hyst cd"
  "raw_value (snd (avg_record cfg cd y)) = raw_value cd"
  "queue (r_avg (snd (avg_record cfg cd y))) = (queue (r_avg cd))[unat (ptr (r_avg cd)) := y]"
  by (simp_all add: avg_record_def Let_def)

lemma avg_record_wf:
  assumes "valid_config cfg" and "wf_channel cfg cd"
  shows "wf_channel cfg (snd (avg_record cfg cd y))"
proof -
  have k: "0 < RUNNING_AVG_SIZE cfg" "RUNNING_AVG_SIZE cfg \<le> 256"
    using assms(1) by (simp_all add: valid_config_def)
  have "Suc (unat (ptr (r_avg cd))) mod RUNNING_AVG_SIZE cfg < RUNNING_AVG_SIZE cfg"
    using k(1) by simp
  then show ?thesis
    using assms(2) by (simp add: wf_channel_def avg_record_def Let_def cursor_unat [OF k])
qed

lemma avg_record_in_cal:
  assumes "valid_config cfg" and "wf_channel cfg cd"
    and "list_all (in_cal cd) (queue (r_avg cd))" and "in_cal cd y"
  shows "list_all (in_cal cd) (queue (r_avg (snd (avg_record cfg cd y))))"
    and "in_cal cd (fst (avg_record cfg cd y))"
proof -
  let ?q = "(queue (r_avg cd))[unat (ptr (r_avg cd)) := y]"
  have k: "0 < RUNNING_AVG_SIZE cfg" "RUNNING_AVG_SIZE cfg \<le> 2 ^ 32"
    using assms(1) by (simp_all add: valid_config_def)
  have len: "length ?q = RUNNING_AVG_SIZE cfg"
    using assms(2) by (simp add: wf_channel_def)
  have mem: "\<And>v. v \<in> set ?q \<Longrightarrow> in_cal cd v"
  proof -
    fix v
    assume "v \<in> set ?q"
    then have "v = y \<or> v \<in> set (queue (r_avg cd))"
      using set_update_subset_insert [of "queue (r_avg cd)" "unat (ptr (r_avg cd))" y] by auto
    then show "in_cal cd v"
      using assms(3,4) by (auto simp add: list_all_iff)
  qed
  then show "list_all (in_cal cd) (queue (r_avg (snd (avg_record cfg cd y))))"
    by (simp add: avg_record_frame list_all_iff)
  have ne: "?q \<noteq> []" using len k(1) by auto
  have "\<And>v. v \<in> set ?q \<Longrightarrow> unat (min_cal cd) \<le> unat v \<and> unat v \<le> unat (max_cal cd)"
    using mem by (simp add: in_cal_unat)
  then have "unat (min_cal cd) \<le> sum_list (map unat ?q) div length ?q
           \<and> sum_list (map unat ?q) div length ?q \<le> unat (max_cal cd)"
    using ne by (rule mean_between)
  moreover have "unat (fst (avg_record cfg cd y)) = sum_list (map unat ?q) div RUNNING_AVG_SIZE cfg"
    using mean_unat [OF len k] by (simp add: avg_record_def Let_def)
  moreover have "length (queue (r_avg cd)) = RUNNING_AVG_SIZE cfg"
    using assms(2) by (simp add: wf_channel_def)
  ultimately show "in_cal cd (fst (avg_record cfg cd y))"
    by (simp add: in_cal_unat)
qed

lemma sample_record_cal:
  "min_cal (sample_record cfg cd raw) = min_cal cd"
  "max_cal (sample_record cfg cd raw) = max_cal cd"
  by (simp_all add: sample_record_def split_beta avg_record_frame hyst_record_frame)

lemma sample_record_inv:
  assumes "valid_config cfg" and "channel_inv cfg cd" and "in_cal cd raw"
  shows "channel_inv cfg (sample_record cfg cd raw)"
proof -
  define cd1 where "cd1 = cd\<lparr>raw_value := raw\<rparr>"
  define cd2 where "cd2 = snd (hyst_record cd1 raw)"
  define h where "h = fst (hyst_record cd1 raw)"
  define cd3 where "cd3 = snd (avg_record cfg cd2 h)"
  define a where "a = fst (avg_record cfg cd2 h)"
  have res: "sample_record cfg cd raw = cd3\<lparr>normalized_value := a\<rparr>"
    by (simp add: sample_record_def split_beta cd1_def cd2_def h_def cd3_def a_def)
  have same: "in_cal cd1 = in_cal cd" "in_cal cd2 = in_cal cd" "in_cal cd3 = in_cal cd"
    by (simp_all add: fun_eq_iff in_cal_def cd1_def cd2_def cd3_def
          hyst_record_frame avg_record_frame)
  have p1: "wf_channel cfg cd1" "cal_ok cd1" "window_inv cd1"
    "list_all (in_cal cd) (queue (r_avg cd1))" "in_cal cd1 raw"
    using assms(2,3)
    by (simp_all add: channel_inv_def cd1_def wf_channel_def cal_ok_def window_inv_def
          filled_in_cal_def in_cal_def)
  have p2: "wf_channel cfg cd2" "cal_ok cd2" "window_inv cd2"
    "list_all (in_cal cd2) (queue (r_avg cd2))" "in_cal cd2 h"
  proof -
    show "wf_channel cfg cd2"
      using p1(1) by (simp add: cd2_def wf_channel_def hyst_record_frame)
    show "cal_ok cd2"
      using p1(2) by (simp add: cd2_def cal_ok_def hyst_record_frame)
    show "window_inv cd2"
      unfolding cd2_def by (rule hyst_record_window_inv [OF p1(2,3,5)])
    show "list_all (in_cal cd2) (queue (r_avg cd2))"
      using p1(4) by (simp add: same) (simp add: cd2_def hyst_record_frame)
    show "in_cal cd2 h"
      using hyst_record_in_cal [OF p1(2,3,5)] by (simp add: same h_def)
  qed
  have p3: "wf_channel cfg cd3" "cal_ok cd3" "window_inv cd3"
    "list_all (in_cal cd) (queue (r_avg cd3))" "in_cal cd a"
  proof -
    show "wf_channel cfg cd3"
      unfolding cd3_def by (rule avg_record_wf [OF assms(1) p2(1)])
    show "cal_ok cd3"
      using p2(2) by (simp add: cd3_def cal_ok_def avg_record_frame)
    show "window_inv cd3"
      using p2(3) by (simp add: cd3_def window_inv_def avg_record_frame)
    show "list_all (in_cal cd) (queue (r_avg cd3))"
      using avg_record_in_cal(1) [OF assms(1) p2(1,4,5)] by (simp add: same cd3_def)
    show "in_cal cd a"
      using avg_record_in_cal(2) [OF assms(1) p2(1,4,5)] by (simp add: same a_def)
  qed
  have "in_cal (cd3\<lparr>normalized_value := a\<rparr>) = in_cal cd"
    using same(3) by (simp add: fun_eq_iff in_cal_def)
  then show ?thesis
    using p3
    by (simp add: res channel_inv_def wf_channel_def cal_ok_def window_inv_def filled_in_cal_def)
qed


subsection \<open>The acquisition task keeps the invariant of a channel\<close>

lemma update_channel_tracked:
  assumes "valid_config cfg" and "c < ADC_MAX_CHANNELS cfg" and "ch < ADC_MAX_CHANNELS cfg"
    and "tracked cfg c lo hi st"
    and "ch = c \<Longrightarrow> lo \<le> raw \<and> raw \<le> hi"
  shows "tracked cfg c lo hi (update_channel cfg ch raw st)"
proof -
  have n: "ADC_MAX_CHANNELS cfg \<le> 6" using assms(1) by (simp add: valid_config_def)
  have len: "length (channel_data st) = ADC_MAX_CHANNELS cfg"
    using assms(4) by (simp add: tracked_def)
  note upd = update_channel_record [OF assms(3) n len]
  show ?thesis
  proof (cases "ch = c")
    case True
    have "in_cal (channel_data st ! ch) raw"
      using assms(4) assms(5) [OF True] True by (simp add: tracked_def in_cal_def)
    moreover have "channel_inv cfg (channel_data st ! ch)"
      using assms(4) True by (simp add: tracked_def)
    ultimately have "channel_inv cfg (sample_record cfg (channel_data st ! ch) raw)"
      by (intro sample_record_inv [OF assms(1)])
    then show ?thesis
      using assms(2,4) len unfolding True [symmetric]
      by (simp add: upd tracked_def sample_record_cal)
  next
    case False
    then show ?thesis
      using assms(4) by (simp add: upd tracked_def)
  qed
qed

lemma scan_channels_tracked:
  assumes "valid_config cfg" and "c < ADC_MAX_CHANNELS cfg"
    and "\<forall>ch \<in> set chs. ch < ADC_MAX_CHANNELS cfg"
    and "tracked cfg c lo hi st"
    and "(physical_channels cfg ! c) AND 7 = ucast (type1_channel p) \<Longrightarrow>
           lo \<le> ucast (type1_data p) \<and> ucast (type1_data p) \<le> hi"
  shows "tracked cfg c lo hi (scan_channels cfg sem p chs st)"
  using assms(3)
proof (induction chs)
  case Nil
  show ?case using assms(4) by simp
next
  case (Cons ch chs)
  show ?case
  proof (cases "(physical_channels cfg ! ch) AND 7 = ucast (type1_channel p)")
    case True
    have b: "ch < ADC_MAX_CHANNELS cfg" using Cons.prems by simp
    have "tracked cfg c lo hi (update_channel cfg ch (ucast (type1_data p)) st)"
      using True assms(5) by (intro update_channel_tracked [OF assms(1,2) b assms(4)]) simp
    then show ?thesis using True assms(4) by simp
  next
    case False
    then show ?thesis using Cons by simp
  qed
qed

lemma process_sample_tracked:
  assumes "valid_config cfg" and "c < ADC_MAX_CHANNELS cfg"
    and "tracked cfg c lo hi st"
    and "(physical_channels cfg ! c) AND 7 = ucast (type1_channel (fst ps)) \<Longrightarrow>
           lo \<le> ucast (type1_data (fst ps)) \<and> ucast (type1_data (fst ps)) \<le> hi"
  shows "tracked cfg c lo hi (process_sample cfg ps st)"
  unfolding process_sample_def
  using assms(4) by (intro scan_channels_tracked [OF assms(1,2) _ assms(3)]) simp_all

lemma fold_process_sample_tracked:
  assumes "valid_config cfg" and "c < ADC_MAX_CHANNELS cfg"
  shows "tracked cfg c lo hi st \<Longrightarrow>
         \<forall>ps \<in> set pss. (physical_channels cfg ! c) AND 7 = ucast (type1_channel (fst ps)) \<longrightarrow>
            lo \<le> ucast (type1_data (fst ps)) \<and> ucast (type1_data (fst ps)) \<le> hi \<Longrightarrow>
         tracked cfg c lo hi (fold (process_sample cfg) pss st)"
proof (induction pss arbitrary: st)
  case Nil
  then show ?case by simp
next
  case (Cons ps pss)
  have "tracked cfg c lo hi (process_sample cfg ps st)"
    using Cons.prems by (intro process_sample_tracked [OF assms]) simp_all
  then show ?case using Cons by simp
qed

lemma task_adc_cycle_tracked:
  assumes "valid_config cfg" and "c < ADC_MAX_CHANNELS cfg"
    and "tracked cfg c lo hi st"
    and "\<forall>ps \<in> set (snd rd). (physical_channels cfg ! c) AND 7 = ucast (type1_channel (fst ps)) \<longrightarrow>
            lo \<le> ucast (type1_data (fst ps)) \<and> ucast (type1_data (fst ps)) \<le> hi"
  shows "tracked cfg c lo hi (task_adc_cycle cfg rd st)"
proof -
  have "tracked cfg c lo hi
          (st\<lparr>errors := (errors st)\<lparr>conversions := conversions (errors st) + 1\<rparr>\<rparr>)"
    using assms(3) by (simp add: tracked_def)
  then have "tracked cfg c lo hi (fold (process_sample cfg) (snd rd)
          (st\<lparr>errors := (errors st)\<lparr>conversions := conversions (errors st) + 1\<rparr>\<rparr>))"
    using assms(4) by (rule fold_process_sample_tracked [OF assms(1,2)])
  then show ?thesis
    using assms(3) by (simp add: task_adc_cycle_def tracked_def)
qed

lemma task_adc_tracked:
  assumes "valid_config cfg" and "c < ADC_MAX_CHANNELS cfg"
  shows "tracked cfg c lo hi st \<Longrightarrow>
         \<forall>rd \<in> set rds. \<forall>ps \<in> set (snd rd).
            (physical_channels cfg ! c) AND 7 = ucast (type1_channel (fst ps)) \<longrightarrow>
            lo \<le> ucast (type1_data (fst ps)) \<and> ucast (type1_data (fst ps)) \<le> hi \<Longrightarrow>
         tracked cfg c lo hi (task_adc cfg rds st)"
  unfolding task_adc_def
proof (induction rds arbitrary: st)
  case Nil
  then show ?case by simp
next
  case (Cons rd rds)
  have "tracked cfg c lo hi (task_adc_cycle cfg rd st)"
    using Cons.prems by (intro task_adc_cycle_tracked [OF assms]) simp_all
  then show ?case using Cons by simp
qed

lemma window_in_cal_inv:
  assumes "window_in_cal cd"
  shows "window_inv cd"
proof -
  have le: "hyst_min (r_hyst cd) \<le> hyst_max (r_hyst cd)"
    using assms by (simp add: window_in_cal_def)
  have "unat (min_cal cd) \<le> unat (hyst_min (r_hyst cd))"
    and "unat (hyst_min (r_hyst cd)) \<le> unat (hyst_max (r_hyst cd))"
    and "unat (hyst_max (r_hyst cd)) \<le> unat (max_cal cd)"
    using assms by (simp_all add: window_in_cal_def word_le_nat_alt)
  then show ?thesis by (simp add: window_inv_unat)
qed

text \<open>
  Claim C1, as amended. Take a valid channel whose calibration satisfies
  \<open>min < max \<le> 2 ^ 12\<close> and whose width satisfies \<open>0 < width \<le> max - min\<close>, with the
  window inside the calibration bounds and with every slot of the averaging buffer and
  the stored filtered value inside them. After any sequence of wake-ups of the task in
  which every raw sample of that channel lies within the bounds, \<open>adc_get_normalized\<close>
  for a non-null target either fails with \<^verbatim>\<open>ESP_ERR_TIMEOUT\<close>, the mutex not being free,
  or returns a value within \<open>[calibration.min, calibration.max]\<close>. Samples of other
  channels, dropped samples and failed reads are unrestricted.
\<close>

theorem filtered_within_calibration:
  assumes "valid_config cfg" and "wf_state cfg st" and "chk_chn cfg channel"
    and "cal_ok (channel_data st ! unat channel)"
    and "window_in_cal (channel_data st ! unat channel)"
    and "filled_in_cal (channel_data st ! unat channel)"
    and "\<forall>rd \<in> set rds. \<forall>ps \<in> set (snd rd). sample_for cfg channel (fst ps) \<longrightarrow>
           in_cal (channel_data st ! unat channel) (ucast (type1_data (fst ps)))"
  shows "case adc_get_normalized cfg sem (task_adc cfg rds st) channel False wait of
           Inl e \<Rightarrow> e = ESP_ERR_TIMEOUT \<and> \<not> sem wait
         | Inr v \<Rightarrow> sem wait \<and> min_cal (channel_data st ! unat channel) \<le> v
                      \<and> v \<le> max_cal (channel_data st ! unat channel)"
proof -
  let ?c = "unat channel"
  let ?lo = "min_cal (channel_data st ! ?c)"
  let ?hi = "max_cal (channel_data st ! ?c)"
  have c: "?c < ADC_MAX_CHANNELS cfg" using assms(3) by (simp add: chk_chn_def)
  have "wf_channel cfg (channel_data st ! ?c)"
    using assms(2) c by (simp add: wf_state_def list_all_length)
  then have "tracked cfg ?c ?lo ?hi st"
    using assms(2,4,6) window_in_cal_inv [OF assms(5)]
    by (simp add: tracked_def channel_inv_def wf_state_def)
  moreover have "\<forall>rd \<in> set rds. \<forall>ps \<in> set (snd rd).
            (physical_channels cfg ! ?c) AND 7 = ucast (type1_channel (fst ps)) \<longrightarrow>
            ?lo \<le> ucast (type1_data (fst ps)) \<and> ucast (type1_data (fst ps)) \<le> ?hi"
    using assms(7) by (simp add: sample_for_def in_cal_def)
  ultimately have t: "tracked cfg ?c ?lo ?hi (task_adc cfg rds st)"
    by (rule task_adc_tracked [OF assms(1) c])
  then have "in_cal (channel_data (task_adc cfg rds st) ! ?c)
               (normalized_value (channel_data (task_adc cfg rds st) ! ?c))"
    by (simp add: tracked_def channel_inv_def filled_in_cal_def)
  then have "?lo \<le> normalized_value (channel_data (task_adc cfg rds st) ! ?c)
           \<and> normalized_value (channel_data (task_adc cfg rds st) ! ?c) \<le> ?hi"
    using t by (simp add: tracked_def in_cal_def)
  then show ?thesis
    using assms(3) by (simp add: adc_get_normalized_def)
qed

theorem filtered_within_calibration_witness:
  "valid_config default_config \<and> wf_state default_config warm_state \<and> chk_chn default_config 0
   \<and> cal_ok (channel_data warm_state ! unat (0 :: u8))
   \<and> window_in_cal (channel_data warm_state ! unat (0 :: u8))
   \<and> filled_in_cal (channel_data warm_state ! unat (0 :: u8))
   \<and> in_cal (channel_data warm_state ! unat (0 :: u8)) (ucast (type1_data (fst (sample 6 2000))))
   \<and> in_cal (channel_data warm_state ! unat (0 :: u8)) (ucast (type1_data (fst (sample 6 110))))
   \<and> \<not> sample_for default_config 0 (fst (sample 7 9))
   \<and> (case adc_get_normalized default_config free_mutex
              (task_adc default_config
                 [(ESP_OK, [sample 6 2000, sample 6 110, sample 7 9]), (ESP_ERR_TIMEOUT, [])]
                 warm_state) 0 False 0 of
           Inl e \<Rightarrow> e = ESP_ERR_TIMEOUT \<and> \<not> free_mutex 0
         | Inr v \<Rightarrow> free_mutex 0 \<and> min_cal (channel_data warm_state ! unat (0 :: u8)) \<le> v
                      \<and> v \<le> max_cal (channel_data warm_state ! unat (0 :: u8)))
   \<and> min_cal (channel_data warm_state ! unat (0 :: u8)) = 100
   \<and> max_cal (channel_data warm_state ! unat (0 :: u8)) = 3900
   \<and> adc_get_normalized default_config free_mutex
         (task_adc default_config
            [(ESP_OK, [sample 6 2000, sample 6 110, sample 7 9]), (ESP_ERR_TIMEOUT, [])]
            warm_state) 0 False 0 = Inr 307"
proof -
  have v: "valid_config default_config" by code_simp
  have w: "wf_state default_config warm_state" by code_simp
  have c: "chk_chn default_config 0" by code_simp
  have h1: "cal_ok (channel_data warm_state ! unat (0 :: u8))" by code_simp
  have h2: "window_in_cal (channel_data warm_state ! unat (0 :: u8))" by code_simp
  have h3: "filled_in_cal (channel_data warm_state ! unat (0 :: u8))" by code_simp
  have h4: "\<forall>rd \<in> set [(ESP_OK, [sample 6 2000, sample 6 110, sample 7 9]), (ESP_ERR_TIMEOUT, [])].
        \<forall>ps \<in> set (snd rd). sample_for default_config 0 (fst ps) \<longrightarrow>
           in_cal (channel_data warm_state ! unat (0 :: u8)) (ucast (type1_data (fst ps)))"
    by code_simp
  have e1: "min_cal (channel_data warm_state ! unat (0 :: u8)) = 100" by code_simp
  have e2: "max_cal (channel_data warm_state ! unat (0 :: u8)) = 3900" by code_simp
  have e3: "adc_get_normalized default_config free_mutex
         (task_adc default_config
            [(ESP_OK, [sample 6 2000, sample 6 110, sample 7 9]), (ESP_ERR_TIMEOUT, [])]
            warm_state) 0 False 0 = Inr 307"
    by code_simp
  have s1: "in_cal (channel_data warm_state ! unat (0 :: u8))
              (ucast (type1_data (fst (sample 6 2000))))"
    by code_simp
  have s2: "in_cal (channel_data warm_state ! unat (0 :: u8))
              (ucast (type1_data (fst (sample 6 110))))"
    by code_simp
  have s3: "\<not> sample_for default_config 0 (fst (sample 7 9))" by code_simp
  note t = filtered_within_calibration [OF v w c h1 h2 h3 h4, of free_mutex 0]
  show ?thesis
    by (intro conjI v w c h1 h2 h3 s1 s2 s3 e1 e2 e3 t)
qed

text \<open>
  Claim C1 as stated fails, in three ways, each with the window inside the calibration
  bounds and a positive width. With calibration \<open>[100, 3900]\<close> and the zero-filled buffer
  of the start, one sample of 120 gives the filtered value 12. With calibration
  \<open>[0, 100]\<close>, the raw value 4000 is passed through by the hysteresis filter and gives
  the filtered value 400. With calibration \<open>[500, 600]\<close>, a filled buffer and width
  1000, the samples 560, 550, 550, all within the bounds, move the window to
  \<open>[0, 600]\<close> and give the filtered value 480.
\<close>

theorem filtered_outside_calibration:
  "chk_chn default_config 0
   \<and> window_in_cal (channel_data (calibrated_state 100 3900) ! unat (0 :: u8))
   \<and> 0 < hysteresis (r_hyst (channel_data (calibrated_state 100 3900) ! unat (0 :: u8)))
   \<and> min_cal (channel_data (calibrated_state 100 3900) ! unat (0 :: u8)) = 100
   \<and> adc_get_normalized default_config free_mutex
        (task_adc default_config [(ESP_OK, [sample 6 120])] (calibrated_state 100 3900))
        0 False 0 = Inr 12
   \<and> \<not> in_cal (channel_data (calibrated_state 100 3900) ! unat (0 :: u8)) 12
   \<and> window_in_cal (channel_data (calibrated_state 0 100) ! unat (0 :: u8))
   \<and> 0 < hysteresis (r_hyst (channel_data (calibrated_state 0 100) ! unat (0 :: u8)))
   \<and> filled_in_cal (channel_data (calibrated_state 0 100) ! unat (0 :: u8))
   \<and> max_cal (channel_data (calibrated_state 0 100) ! unat (0 :: u8)) = 100
   \<and> adc_get_normalized default_config free_mutex
        (task_adc default_config [(ESP_OK, [sample 6 4000])] (calibrated_state 0 100))
        0 False 0 = Inr 400
   \<and> \<not> in_cal (channel_data (calibrated_state 0 100) ! unat (0 :: u8)) 400
   \<and> window_in_cal (channel_data narrow_state ! unat (0 :: u8))
   \<and> 0 < hysteresis (r_hyst (channel_data narrow_state ! unat (0 :: u8)))
   \<and> filled_in_cal (channel_data narrow_state ! unat (0 :: u8))
   \<and> min_cal (channel_data narrow_state ! unat (0 :: u8)) = 500
   \<and> max_cal (channel_data narrow_state ! unat (0 :: u8)) = 600
   \<and> adc_get_normalized default_config free_mutex
        (task_adc default_config [(ESP_OK, [sample 6 560, sample 6 550, sample 6 550])]
           narrow_state)
        0 False 0 = Inr 480
   \<and> \<not> in_cal (channel_data narrow_state ! unat (0 :: u8)) 480"
  by code_simp


section \<open>Well-formed states are kept\<close>

text \<open>
  \<^verbatim>\<open>adc_init\<close> makes the state well formed, whatever the array held before, and the
  acquisition task and the two setters keep it so.
\<close>

lemma wf_state_update:
  assumes "wf_state cfg st" and "wf_channel cfg cd"
  shows "wf_state cfg (st\<lparr>channel_data := (channel_data st)[i := cd]\<rparr>)"
proof (cases "i < length (channel_data st)")
  case True
  then show ?thesis
    using assms by (simp add: wf_state_def list_all_length nth_list_update)
next
  case False
  then show ?thesis
    using assms by (simp add: wf_state_def list_update_beyond)
qed

lemma wf_state_nth:
  assumes "wf_state cfg st" and "i < ADC_MAX_CHANNELS cfg"
  shows "wf_channel cfg (channel_data st ! i)"
  using assms by (simp add: wf_state_def list_all_length)

lemma sample_record_wf:
  assumes "valid_config cfg" and "wf_channel cfg cd"
  shows "wf_channel cfg (sample_record cfg cd raw)"
proof -
  have "wf_channel cfg (snd (hyst_record (cd\<lparr>raw_value := raw\<rparr>) raw))"
    using assms(2) by (simp add: wf_channel_def hyst_record_frame)
  then have "wf_channel cfg (snd (avg_record cfg (snd (hyst_record (cd\<lparr>raw_value := raw\<rparr>) raw))
                (fst (hyst_record (cd\<lparr>raw_value := raw\<rparr>) raw))))"
    by (rule avg_record_wf [OF assms(1)])
  then show ?thesis
    by (simp add: sample_record_def split_beta wf_channel_def)
qed

lemma update_channel_wf:
  assumes "valid_config cfg" and "ch < ADC_MAX_CHANNELS cfg" and "wf_state cfg st"
  shows "wf_state cfg (update_channel cfg ch raw st)"
proof -
  have n: "ADC_MAX_CHANNELS cfg \<le> 6" using assms(1) by (simp add: valid_config_def)
  have len: "length (channel_data st) = ADC_MAX_CHANNELS cfg"
    using assms(3) by (simp add: wf_state_def)
  have "wf_channel cfg (sample_record cfg (channel_data st ! ch) raw)"
    by (rule sample_record_wf [OF assms(1) wf_state_nth [OF assms(3,2)]])
  then show ?thesis
    unfolding update_channel_record [OF assms(2) n len]
    by (rule wf_state_update [OF assms(3)])
qed

lemma scan_channels_wf:
  assumes "valid_config cfg" and "\<forall>ch \<in> set chs. ch < ADC_MAX_CHANNELS cfg"
    and "wf_state cfg st"
  shows "wf_state cfg (scan_channels cfg sem p chs st)"
  using assms(2)
proof (induction chs)
  case Nil
  show ?case using assms(3) by simp
next
  case (Cons ch chs)
  have "wf_state cfg (update_channel cfg ch (ucast (type1_data p)) st)"
    using Cons.prems by (intro update_channel_wf [OF assms(1) _ assms(3)]) simp
  then show ?case using Cons assms(3) by simp
qed

lemma process_sample_wf:
  assumes "valid_config cfg" and "wf_state cfg st"
  shows "wf_state cfg (process_sample cfg ps st)"
  unfolding process_sample_def
  by (rule scan_channels_wf [OF assms(1) _ assms(2)]) simp

lemma fold_process_sample_wf:
  assumes "valid_config cfg"
  shows "wf_state cfg st \<Longrightarrow> wf_state cfg (fold (process_sample cfg) pss st)"
  by (induction pss arbitrary: st) (simp_all add: process_sample_wf [OF assms])

lemma task_adc_cycle_wf:
  assumes "valid_config cfg" and "wf_state cfg st"
  shows "wf_state cfg (task_adc_cycle cfg rd st)"
proof -
  have "wf_state cfg (st\<lparr>errors := (errors st)\<lparr>conversions := conversions (errors st) + 1\<rparr>\<rparr>)"
    using assms(2) by (simp add: wf_state_def)
  then have "wf_state cfg (fold (process_sample cfg) (snd rd)
          (st\<lparr>errors := (errors st)\<lparr>conversions := conversions (errors st) + 1\<rparr>\<rparr>))"
    by (rule fold_process_sample_wf [OF assms(1)])
  then show ?thesis
    using assms(2) by (simp add: task_adc_cycle_def wf_state_def)
qed

lemma task_adc_wf:
  assumes "valid_config cfg"
  shows "wf_state cfg st \<Longrightarrow> wf_state cfg (task_adc cfg rds st)"
  unfolding task_adc_def
  by (induction rds arbitrary: st) (simp_all add: task_adc_cycle_wf [OF assms])

lemma wf_channel_avg:
  assumes "r_avg a = r_avg b"
  shows "wf_channel cfg a = wf_channel cfg b"
  using assms by (simp add: wf_channel_def)

lemma r_avg_loaded:
  "r_avg (case x of None \<Rightarrow> cd | Some v \<Rightarrow> cd\<lparr>min_cal := v\<rparr>) = r_avg cd"
  "r_avg (case x of None \<Rightarrow> cd | Some v \<Rightarrow> cd\<lparr>max_cal := v\<rparr>) = r_avg cd"
  "r_avg (case x of None \<Rightarrow> cd | Some v \<Rightarrow> cd\<lparr>r_hyst := (r_hyst cd)\<lparr>hysteresis := v\<rparr>\<rparr>) =
     r_avg cd"
  by (simp_all split: option.splits)

lemma load_channel_config_avg:
  "length (channel_data (snd (load_channel_config cfg nvs channel st))) = length (channel_data st)"
  "r_avg (channel_data (snd (load_channel_config cfg nvs channel st)) ! j) =
     r_avg (channel_data st ! j)"
proof -
  show "length (channel_data (snd (load_channel_config cfg nvs channel st))) =
          length (channel_data st)"
    by (simp add: load_channel_config_def Let_def)
  show "r_avg (channel_data (snd (load_channel_config cfg nvs channel st)) ! j) =
          r_avg (channel_data st ! j)"
  proof (cases "unat channel < length (channel_data st)")
    case True
    then show ?thesis
      by (simp add: load_channel_config_def Let_def nth_list_update r_avg_loaded)
  next
    case False
    then show ?thesis
      by (simp add: load_channel_config_def Let_def list_update_beyond)
  qed
qed

lemma init_channel_avg:
  assumes "valid_config cfg" and "ch < ADC_MAX_CHANNELS cfg"
    and "length (channel_data st) = ADC_MAX_CHANNELS cfg"
  shows "length (channel_data (init_channel cfg nvs ch st)) = ADC_MAX_CHANNELS cfg"
    and "wf_channel cfg (channel_data (init_channel cfg nvs ch st) ! ch)"
    and "j \<noteq> ch \<Longrightarrow> r_avg (channel_data (init_channel cfg nvs ch st) ! j) =
           r_avg (channel_data st ! j)"
proof -
  have k: "0 < RUNNING_AVG_SIZE cfg"
    using assms(1) by (simp add: valid_config_def)
  show "length (channel_data (init_channel cfg nvs ch st)) = ADC_MAX_CHANNELS cfg"
    using assms(3) by (simp add: init_channel_def Let_def load_channel_config_avg)
  have "r_avg (channel_data (init_channel cfg nvs ch st) ! ch) =
          \<lparr>queue = replicate (RUNNING_AVG_SIZE cfg) 0, ptr = 0\<rparr>"
    using assms(2,3)
    by (simp add: init_channel_def Let_def load_channel_config_avg zero_channel_def)
  then show "wf_channel cfg (channel_data (init_channel cfg nvs ch st) ! ch)"
    using k by (simp add: wf_channel_def)
  show "r_avg (channel_data (init_channel cfg nvs ch st) ! j) = r_avg (channel_data st ! j)"
    if "j \<noteq> ch"
    using that by (simp add: init_channel_def Let_def load_channel_config_avg)
qed

lemma init_channels_wf:
  assumes "valid_config cfg" and "length (channel_data st) = ADC_MAX_CHANNELS cfg"
  shows "i \<le> ADC_MAX_CHANNELS cfg \<Longrightarrow>
         length (channel_data (fold (init_channel cfg nvs) [0..<i] st)) = ADC_MAX_CHANNELS cfg \<and>
         (\<forall>j<i. wf_channel cfg (channel_data (fold (init_channel cfg nvs) [0..<i] st) ! j))"
proof (induction i)
  case 0
  show ?case using assms(2) by simp
next
  case (Suc i)
  let ?st = "fold (init_channel cfg nvs) [0..<i] st"
  have ih: "length (channel_data ?st) = ADC_MAX_CHANNELS cfg"
    "\<forall>j<i. wf_channel cfg (channel_data ?st ! j)"
    using Suc by simp_all
  have lt: "i < ADC_MAX_CHANNELS cfg" using Suc.prems by simp
  note ic = init_channel_avg [OF assms(1) lt ih(1)]
  have "wf_channel cfg (channel_data (init_channel cfg nvs i ?st) ! j)" if "j < Suc i" for j
  proof (cases "j = i")
    case True
    then show ?thesis using ic(2) by simp
  next
    case False
    then have "j < i" using that by simp
    then have "wf_channel cfg (channel_data ?st ! j)" using ih(2) by simp
    then show ?thesis
      using wf_channel_avg [OF ic(3) [OF False]] by simp
  qed
  then show ?case using ic(1) by simp
qed

lemma adc_init_wf:
  assumes "valid_config cfg" and "length (channel_data st) = ADC_MAX_CHANNELS cfg"
  shows "wf_state cfg (snd (adc_init cfg True task_created nvs st))"
proof -
  let ?st0 = "st\<lparr>errors := \<lparr>conversions = 0, invalid_channel = 0,
                           read_errors = 0, timeouts = 0\<rparr>\<rparr>"
  have "length (channel_data ?st0) = ADC_MAX_CHANNELS cfg" using assms(2) by simp
  then have "length (channel_data (fold (init_channel cfg nvs) [0..<ADC_MAX_CHANNELS cfg] ?st0)) =
               ADC_MAX_CHANNELS cfg \<and>
             (\<forall>j<ADC_MAX_CHANNELS cfg.
                wf_channel cfg
                  (channel_data (fold (init_channel cfg nvs) [0..<ADC_MAX_CHANNELS cfg] ?st0) ! j))"
    by (intro init_channels_wf [OF assms(1)]) simp_all
  then show ?thesis
    by (simp add: adc_init_def wf_state_def list_all_length)
qed

lemma adc_set_calibration_wf:
  assumes "wf_state cfg st"
  shows "wf_state cfg (fst (snd (adc_set_calibration cfg sem st nvs channel mn mx)))"
proof (cases "chk_chn cfg channel")
  case True
  then have "wf_channel cfg (channel_data st ! unat channel)"
    using wf_state_nth [OF assms] by (simp add: chk_chn_def)
  then have "wf_channel cfg ((channel_data st ! unat channel)
                 \<lparr>min_cal := mn, max_cal := mx,
                   r_hyst := (r_hyst (channel_data st ! unat channel))\<lparr>hyst_min := mn,
                      hyst_max := MIN_u32 (mn + hysteresis (r_hyst (channel_data st ! unat channel))) mx\<rparr>\<rparr>)"
    by (simp add: wf_channel_def)
  then show ?thesis
    using assms
    by (auto simp add: adc_set_calibration_def Let_def split_beta intro!: wf_state_update)
next
  case False
  then show ?thesis using assms by (simp add: adc_set_calibration_def)
qed

lemma adc_set_hysteresis_wf:
  assumes "wf_state cfg st"
  shows "wf_state cfg (fst (snd (adc_set_hysteresis cfg sem st nvs channel h)))"
proof (cases "chk_chn cfg channel")
  case True
  then have "wf_channel cfg (channel_data st ! unat channel)"
    using wf_state_nth [OF assms] by (simp add: chk_chn_def)
  then have "wf_channel cfg ((channel_data st ! unat channel)
                 \<lparr>r_hyst := (r_hyst (channel_data st ! unat channel))\<lparr>hysteresis := h\<rparr>\<rparr>)"
    by (simp add: wf_channel_def)
  then show ?thesis
    using assms
    by (auto simp add: adc_set_hysteresis_def Let_def split_beta intro!: wf_state_update)
next
  case False
  then show ?thesis using assms by (simp add: adc_set_hysteresis_def)
qed

section \<open>The hysteresis filter: sliding down\<close>

text \<open>
  When \<open>input - width div 2\<close> does not wrap, the downward branch computes the clamped
  window in natural-number arithmetic.
\<close>

lemma running_hyst_slide_down:
  assumes "chk_chn cfg channel"
    and "unat channel < length (channel_data st)"
    and "x < hyst_min (r_hyst (channel_data st ! unat channel))"
    and "x \<le> hyst_max (r_hyst (channel_data st ! unat channel))"
    and "unat (hysteresis (r_hyst (channel_data st ! unat channel))) div 2 \<le> unat x"
    and "unat x < 2 ^ 12"
    and "unat (min_cal (channel_data st ! unat channel)) \<le> 2 ^ 12"
    and "unat (hysteresis (r_hyst (channel_data st ! unat channel))) \<le> 1000"
  shows "unat (hyst_min (r_hyst (channel_data (snd (running_hyst cfg channel x st)) ! unat channel))) =
           max (unat x - unat (hysteresis (r_hyst (channel_data st ! unat channel))) div 2)
               (unat (min_cal (channel_data st ! unat channel)))
       \<and> unat (hyst_max (r_hyst (channel_data (snd (running_hyst cfg channel x st)) ! unat channel))) =
           min (unat (hyst_min (r_hyst (channel_data (snd (running_hyst cfg channel x st)) ! unat channel)))
                + unat (hysteresis (r_hyst (channel_data st ! unat channel))))
               (unat (max_cal (channel_data st ! unat channel)))
       \<and> fst (running_hyst cfg channel x st) = x"
proof -
  let ?cd = "channel_data st ! unat channel"
  have mn: "unat (MAX_u32 (x - hysteresis (r_hyst ?cd) div 2) (min_cal ?cd)) =
              max (unat x - unat (hysteresis (r_hyst ?cd)) div 2) (unat (min_cal ?cd))"
    using assms(5) by (simp add: MAX_u32_unat minus_half_unat)
  then have "unat (MAX_u32 (x - hysteresis (r_hyst ?cd) div 2) (min_cal ?cd)) \<le> 2 ^ 12"
    using assms(6,7) by simp
  then have "unat (MAX_u32 (x - hysteresis (r_hyst ?cd) div 2) (min_cal ?cd))
               + unat (hysteresis (r_hyst ?cd)) < 2 ^ 32"
    using assms(8) by simp
  then have mx: "unat (MAX_u32 (x - hysteresis (r_hyst ?cd) div 2) (min_cal ?cd)
                   + hysteresis (r_hyst ?cd)) =
              unat (MAX_u32 (x - hysteresis (r_hyst ?cd) div 2) (min_cal ?cd))
                + unat (hysteresis (r_hyst ?cd))"
    by (simp add: plus_width_unat)
  show ?thesis
    using assms(2)
    by (simp add: running_hyst_record [OF assms(1,2)] hyst_record_below [OF assms(3,4)]
          MIN_u32_unat mx mn)
qed

text \<open>
  Claim C3 at the input 5 with window \<open>[1980, 2020]\<close>, width 40 and calibration
  \<open>[0, 4095]\<close>: the subtraction \<open>5 - 20\<close> wraps to \<open>2 ^ 32 - 15\<close>, which becomes the
  new \<open>window_min\<close>, and the new \<open>window_max\<close> is 25; the claim asks for the window
  \<open>[0, 40]\<close>.
\<close>

theorem running_hyst_slide_down_wraps:
  "chk_chn default_config 0
   \<and> r_hyst (channel_data (window_state 1980 2020) ! unat (0 :: u8)) =
        \<lparr>hyst_min = 1980, hyst_max = 2020, hysteresis = 40\<rparr>
   \<and> min_cal (channel_data (window_state 1980 2020) ! unat (0 :: u8)) = 0
   \<and> max_cal (channel_data (window_state 1980 2020) ! unat (0 :: u8)) = 4095
   \<and> running_hyst default_config 0 5 (window_state 1980 2020) =
        (5, window_state 4294967281 25)"
  by code_simp


text \<open>
  Claim C2 at the same defect, reached from \<^verbatim>\<open>adc_init\<close>: after the samples 2000 and 5 on
  channel 0 the window has \<open>window_min = 2 ^ 32 - 15\<close> above \<open>window_max = 25\<close>.
\<close>

theorem window_invariant_broken:
  "r_hyst (channel_data init_state ! 0) = \<lparr>hyst_min = 0, hyst_max = 40, hysteresis = 40\<rparr>
   \<and> r_hyst (channel_data
         (task_adc default_config [(ESP_OK, [sample 6 2000, sample 6 5])] init_state) ! 0) =
        \<lparr>hyst_min = 4294967281, hyst_max = 25, hysteresis = 40\<rparr>
   \<and> \<not> hyst_min (r_hyst (channel_data
           (task_adc default_config [(ESP_OK, [sample 6 2000, sample 6 5])] init_state) ! 0))
         \<le> hyst_max (r_hyst (channel_data
           (task_adc default_config [(ESP_OK, [sample 6 2000, sample 6 5])] init_state) ! 0))"
  by code_simp

end
